theory Spec2Isabelle
  imports Complex_Main
begin

section \<open>Requests, responses and the relational store\<close>

text \<open>
  A request body is a JSON object: a value for every key, \<open>JUndefined\<close> for an absent one,
  as property access on \<open>req.body\<close> gives it.
\<close>

datatype json = JUndefined | JNull | JBool bool | JNumber rat | JString string

type_synonym json_object = "string \<Rightarrow> json"

text \<open>
  The rows the handlers read and write, with the columns they use; a field carries its
  table's prefix. \<open>user_roleName\<close> is the name of the role that \<open>include: { role: true }\<close> joins.
\<close>

record user =
  user_id :: int
  user_email :: string
  user_passwordHash :: string
  user_roleId :: int
  user_roleName :: string
  user_isActive :: bool

record passwordReset =
  pr_id :: int
  pr_userId :: int
  pr_otpCode :: string
  pr_otpExpiry :: int
  pr_isUsed :: bool

record jobSeekerProfile =
  jsp_id :: int
  jsp_userId :: int

record shop =
  shop_id :: int
  shop_userId :: int

record shopJobPost =
  job_id :: int
  job_shopId :: int
  job_status :: string

record application =
  app_id :: int
  app_seekerId :: int
  app_postId :: int
  app_status :: string

text \<open>
  The bodies the handlers pass to \<open>res.json\<close>: \<open>{error}\<close>, \<open>{error: "Validation error", details}\<close>,
  \<open>{message}\<close>, and \<open>{message, ...}\<close> with the entity the handler echoes.
\<close>

datatype body =
    ErrorBody string
  | ValidationErrorBody
  | MessageBody string
  | OtpBody string string
  | LoginBody string int string int string string
  | ApplicationBody string application
  | JobBody string shopJobPost

type_synonym response = "nat \<times> body"

text \<open>
  The tables behind the \<open>prisma\<close> client, each a list of rows in insertion order.
  Timestamps are milliseconds since the epoch.
\<close>

record store =
  users :: "user list"
  passwordResets :: "passwordReset list"
  jobSeekerProfiles :: "jobSeekerProfile list"
  shops :: "shop list"
  shopJobPosts :: "shopJobPost list"
  applications :: "application list"

text \<open>An autoincrement key: one more than the largest key of the table.\<close>

definition nextId :: "int list \<Rightarrow> int" where
  "nextId ids = fold max ids 0 + 1"

definition user_findUnique_email :: "store \<Rightarrow> string \<Rightarrow> user option" where
  "user_findUnique_email s e = find (\<lambda>u. user_email u = e) (users s)"

text \<open>
  \<open>update\<close> and \<open>delete\<close> address a row by its key and throw when there is none
  (\<open>None\<close>); an update returns the row as written.
\<close>

definition user_update_passwordHash :: "int \<Rightarrow> string \<Rightarrow> store \<Rightarrow> (store \<times> user) option" where
  "user_update_passwordHash uid h s =
     (case find (\<lambda>u. user_id u = uid) (users s) of
        None \<Rightarrow> None
      | Some u0 \<Rightarrow>
          Some (s\<lparr>users := map (\<lambda>u. if user_id u = uid then u\<lparr>user_passwordHash := h\<rparr> else u) (users s)\<rparr>,
                u0\<lparr>user_passwordHash := h\<rparr>))"

text \<open>
  Modelled from the spec: the Prisma schema is not part of the sources, so the column
  default of a created row follows the spec's data model: a Password Reset Record starts
  unused.
\<close>

definition passwordReset_create :: "int \<Rightarrow> string \<Rightarrow> int \<Rightarrow> store \<Rightarrow> store" where
  "passwordReset_create uid code expiry s =
     s\<lparr>passwordResets := passwordResets s @
        [\<lparr>pr_id = nextId (map pr_id (passwordResets s)), pr_userId = uid, pr_otpCode = code,
          pr_otpExpiry = expiry, pr_isUsed = False\<rparr>]\<rparr>"

definition passwordReset_findFirst :: "store \<Rightarrow> int \<Rightarrow> string \<Rightarrow> int \<Rightarrow> passwordReset option" where
  "passwordReset_findFirst s uid code now =
     find (\<lambda>r. pr_userId r = uid \<and> pr_otpCode r = code \<and> pr_isUsed r = False \<and> pr_otpExpiry r \<ge> now)
       (passwordResets s)"

definition passwordReset_update_isUsed :: "int \<Rightarrow> store \<Rightarrow> (store \<times> passwordReset) option" where
  "passwordReset_update_isUsed rid s =
     (case find (\<lambda>r. pr_id r = rid) (passwordResets s) of
        None \<Rightarrow> None
      | Some r0 \<Rightarrow>
          Some (s\<lparr>passwordResets := map (\<lambda>r. if pr_id r = rid then r\<lparr>pr_isUsed := True\<rparr> else r) (passwordResets s)\<rparr>,
                r0\<lparr>pr_isUsed := True\<rparr>))"

definition jobSeekerProfile_findUnique_userId :: "store \<Rightarrow> int \<Rightarrow> jobSeekerProfile option" where
  "jobSeekerProfile_findUnique_userId s uid = find (\<lambda>p. jsp_userId p = uid) (jobSeekerProfiles s)"

definition shop_findUnique_userId :: "store \<Rightarrow> int \<Rightarrow> shop option" where
  "shop_findUnique_userId s uid = find (\<lambda>h. shop_userId h = uid) (shops s)"

definition shopJobPost_findUnique :: "store \<Rightarrow> int \<Rightarrow> shopJobPost option" where
  "shopJobPost_findUnique s i = find (\<lambda>j. job_id j = i) (shopJobPosts s)"

definition shopJobPost_findFirst :: "store \<Rightarrow> int \<Rightarrow> int \<Rightarrow> shopJobPost option" where
  "shopJobPost_findFirst s i sid = find (\<lambda>j. job_id j = i \<and> job_shopId j = sid) (shopJobPosts s)"

definition shopJobPost_update_status :: "int \<Rightarrow> string \<Rightarrow> store \<Rightarrow> (store \<times> shopJobPost) option" where
  "shopJobPost_update_status i st s =
     (case find (\<lambda>j. job_id j = i) (shopJobPosts s) of
        None \<Rightarrow> None
      | Some j0 \<Rightarrow>
          Some (s\<lparr>shopJobPosts := map (\<lambda>j. if job_id j = i then j\<lparr>job_status := st\<rparr> else j) (shopJobPosts s)\<rparr>,
                j0\<lparr>job_status := st\<rparr>))"

definition application_findUnique :: "store \<Rightarrow> int \<Rightarrow> application option" where
  "application_findUnique s i = find (\<lambda>a. app_id a = i) (applications s)"

definition application_findUnique_seekerId_postId :: "store \<Rightarrow> int \<Rightarrow> int \<Rightarrow> application option" where
  "application_findUnique_seekerId_postId s sid pid =
     find (\<lambda>a. app_seekerId a = sid \<and> app_postId a = pid) (applications s)"

definition application_findFirst :: "store \<Rightarrow> int \<Rightarrow> int \<Rightarrow> application option" where
  "application_findFirst s i sid = find (\<lambda>a. app_id a = i \<and> app_seekerId a = sid) (applications s)"

text \<open>
  Modelled from the spec: the Prisma schema is not part of the sources, so the column
  default of a created row follows the spec's data model: an Application starts in
  status \<open>pending\<close>.
\<close>

definition application_new :: "store \<Rightarrow> int \<Rightarrow> int \<Rightarrow> application" where
  "application_new s sid pid =
     \<lparr>app_id = nextId (map app_id (applications s)), app_seekerId = sid, app_postId = pid,
      app_status = ''pending''\<rparr>"

definition application_create :: "int \<Rightarrow> int \<Rightarrow> store \<Rightarrow> store" where
  "application_create sid pid s = s\<lparr>applications := applications s @ [application_new s sid pid]\<rparr>"

definition application_update_status :: "int \<Rightarrow> string \<Rightarrow> store \<Rightarrow> (store \<times> application) option" where
  "application_update_status i st s =
     (case find (\<lambda>a. app_id a = i) (applications s) of
        None \<Rightarrow> None
      | Some a0 \<Rightarrow>
          Some (s\<lparr>applications := map (\<lambda>a. if app_id a = i then a\<lparr>app_status := st\<rparr> else a) (applications s)\<rparr>,
                a0\<lparr>app_status := st\<rparr>))"

definition application_delete :: "int \<Rightarrow> store \<Rightarrow> store option" where
  "application_delete i s =
     (case find (\<lambda>a. app_id a = i) (applications s) of
        None \<Rightarrow> None
      | Some a0 \<Rightarrow> Some (s\<lparr>applications := filter (\<lambda>a. app_id a \<noteq> i) (applications s)\<rparr>))"

section \<open>lib/auth.ts\<close>

record JwtPayload =
  userId :: int
  email :: string
  roleId :: int

text \<open>
  What the \<open>jsonwebtoken\<close> package reads off a token: the payload, the \<open>exp\<close> claim in seconds,
  and the key whose signature the token carries.
\<close>

record jwt =
  jwt_payload :: JwtPayload
  jwt_exp :: int
  jwt_key :: string

text \<open>
  The process environment and the packages the handlers call: the signing key, the token
  codec, bcrypt (the digest of one call, its salt fixed), and zod's email pattern.
\<close>

record lib =
  JWT_SECRET :: string
  JWT_EXPIRES_IN :: int
  jwt_encode :: "jwt \<Rightarrow> string"
  jwt_decode :: "string \<Rightarrow> jwt option"
  bcrypt_hash :: "string \<Rightarrow> string"
  bcrypt_compare :: "string \<Rightarrow> string \<Rightarrow> bool"
  zod_email :: "string \<Rightarrow> bool"

definition hashPassword :: "lib \<Rightarrow> string \<Rightarrow> string" where
  "hashPassword env password = bcrypt_hash env password"

definition comparePassword :: "lib \<Rightarrow> string \<Rightarrow> string \<Rightarrow> bool" where
  "comparePassword env password h = bcrypt_compare env password h"

datatype jwt_error = JsonWebTokenError string | TokenExpiredError

datatype js_error = Error string

text \<open>\<open>jwt.sign\<close> with \<open>expiresIn\<close>: the expiry is the issue time in seconds plus the lifetime.\<close>

definition jwt_sign :: "lib \<Rightarrow> int \<Rightarrow> JwtPayload \<Rightarrow> string \<Rightarrow> string" where
  "jwt_sign env now payload secret =
     jwt_encode env \<lparr>jwt_payload = payload, jwt_exp = now div 1000 + JWT_EXPIRES_IN env, jwt_key = secret\<rparr>"

text \<open>
  \<open>jwt.verify\<close>: a token that does not decode is malformed; the signature is checked
  before the expiry; a token is expired once the clock, in seconds, has reached \<open>exp\<close>.
\<close>

definition jwt_verify :: "lib \<Rightarrow> int \<Rightarrow> string \<Rightarrow> string \<Rightarrow> jwt_error + JwtPayload" where
  "jwt_verify env now token secret =
     (case jwt_decode env token of
        None \<Rightarrow> Inl (JsonWebTokenError ''jwt malformed'')
      | Some t \<Rightarrow>
          if jwt_key t \<noteq> secret then Inl (JsonWebTokenError ''invalid signature'')
          else if now div 1000 \<ge> jwt_exp t then Inl TokenExpiredError
          else Inr (jwt_payload t))"

definition generateToken :: "lib \<Rightarrow> int \<Rightarrow> JwtPayload \<Rightarrow> string" where
  "generateToken env now payload = jwt_sign env now payload (JWT_SECRET env)"

definition verifyToken :: "lib \<Rightarrow> int \<Rightarrow> string \<Rightarrow> js_error + JwtPayload" where
  "verifyToken env now token =
     (case jwt_verify env now token (JWT_SECRET env) of
        Inr payload \<Rightarrow> Inr payload
      | Inl error \<Rightarrow> Inl (Error ''Invalid or expired token''))"

subsection \<open>The OTP generator\<close>

text \<open>
  JavaScript numbers are IEEE 754 binary64 values. A finite one is a real; an arithmetic
  operation is the exact operation followed by rounding to the nearest representable
  value, ties to the even significand. \<open>binade x\<close> is the exponent of the power of two at
  or below \<open>\<bar>x\<bar>\<close> (at least \<open>-1022\<close>, where the subnormal range begins), \<open>ulp x\<close> the
  spacing of the representable values there. Overflow to infinity is left out: the
  operands of \<open>generateOTP\<close> stay below \<open>2 ^ 20\<close>.
\<close>

definition round_even :: "real \<Rightarrow> int" where
  "round_even y =
     (let f = \<lfloor>y\<rfloor> in
      if y - of_int f < 1 / 2 then f
      else if y - of_int f > 1 / 2 then f + 1
      else if even f then f else f + 1)"

definition binade :: "real \<Rightarrow> int" where
  "binade x = max \<lfloor>log 2 \<bar>x\<bar>\<rfloor> (- 1022)"

definition ulp :: "real \<Rightarrow> real" where
  "ulp x = 2 powr (of_int (binade x) - 52)"

definition rnd :: "real \<Rightarrow> real" where
  "rnd x = (if x = 0 then 0 else ulp x * of_int (round_even (x / ulp x)))"

definition is_double :: "real \<Rightarrow> bool" where
  "is_double x = (rnd x = x)"

definition fmul :: "real \<Rightarrow> real \<Rightarrow> real" where
  "fmul x y = rnd (x * y)"

definition fadd :: "real \<Rightarrow> real \<Rightarrow> real" where
  "fadd x y = rnd (x + y)"

definition Math_floor :: "real \<Rightarrow> int" where
  "Math_floor x = \<lfloor>x\<rfloor>"

text \<open>\<open>Number.prototype.toString\<close> on an integer below \<open>10 ^ 21\<close>: its decimal digits.\<close>

fun digits :: "nat \<Rightarrow> string" where
  "digits n = (if n < 10 then [''0123456789'' ! n] else digits (n div 10) @ [''0123456789'' ! (n mod 10)])"

definition toString :: "int \<Rightarrow> string" where
  "toString i = (if i < 0 then CHR ''-'' # digits (nat (- i)) else digits (nat i))"

text \<open>\<open>generateOTP\<close>, as a function of the value \<open>Math.random()\<close> returns.\<close>

definition generateOTP :: "real \<Rightarrow> string" where
  "generateOTP random = toString (Math_floor (fadd 100000 (fmul random 900000)))"

text \<open>Reading a string of decimal digits back as a number.\<close>

definition isDigit :: "char \<Rightarrow> bool" where
  "isDigit c = (c \<in> set ''0123456789'')"

definition digitValue :: "char \<Rightarrow> nat" where
  "digitValue c = of_char c - 48"

definition numericValue :: "string \<Rightarrow> nat" where
  "numericValue s = foldl (\<lambda>a c. 10 * a + digitValue c) 0 s"

definition getOTPExpiry :: "int \<Rightarrow> int" where
  "getOTPExpiry now = now + 10 * 60000"

section \<open>middleware/auth.middleware.ts\<close>

record request =
  authorization :: "string option"
  params_id :: "int option"
  req_body :: json_object

definition startsWith :: "string \<Rightarrow> string \<Rightarrow> bool" where
  "startsWith s p = (take (length p) s = p)"

definition authenticate :: "lib \<Rightarrow> int \<Rightarrow> request \<Rightarrow> response + JwtPayload" where
  "authenticate env now req =
     (case authorization req of
        None \<Rightarrow> Inl (401, ErrorBody ''No token provided'')
      | Some authHeader \<Rightarrow>
          if \<not> startsWith authHeader ''Bearer '' then Inl (401, ErrorBody ''No token provided'')
          else (case verifyToken env now (drop 7 authHeader) of
                  Inl error \<Rightarrow> Inl (401, ErrorBody ''Invalid or expired token'')
                | Inr decoded \<Rightarrow> Inr decoded))"

definition requireRole :: "int list \<Rightarrow> JwtPayload option \<Rightarrow> response option" where
  "requireRole allowedRoleIds u =
     (case u of
        None \<Rightarrow> Some (401, ErrorBody ''Not authenticated'')
      | Some p \<Rightarrow>
          if roleId p \<notin> set allowedRoleIds then Some (403, ErrorBody ''Insufficient permissions'')
          else None)"

definition JOB_SEEKER :: int where "JOB_SEEKER = 1"
definition SHOP_OWNER :: int where "SHOP_OWNER = 2"

text \<open>
  A protected route: \<open>authenticate\<close>, then \<open>requireRole\<close>, then the handler, which reads
  the caller from \<open>req.user\<close>. A rejection by either middleware leaves the store as it is.
\<close>

definition protected ::
  "lib \<Rightarrow> int \<Rightarrow> int list \<Rightarrow> (JwtPayload \<Rightarrow> store \<Rightarrow> request \<Rightarrow> store \<times> response) \<Rightarrow>
   store \<Rightarrow> request \<Rightarrow> store \<times> response" where
  "protected env now allowedRoleIds handler s req =
     (case authenticate env now req of
        Inl rej \<Rightarrow> (s, rej)
      | Inr u \<Rightarrow>
          (case requireRole allowedRoleIds (Some u) of
             Some rej \<Rightarrow> (s, rej)
           | None \<Rightarrow> handler u s req))"

section \<open>routes/auth.routes.ts\<close>

definition loginSchema :: "lib \<Rightarrow> json_object \<Rightarrow> (string \<times> string) option" where
  "loginSchema env b =
     (case (b ''email'', b ''password'') of
        (JString e, JString p) \<Rightarrow> if zod_email env e then Some (e, p) else None
      | _ \<Rightarrow> None)"

definition login :: "lib \<Rightarrow> int \<Rightarrow> store \<Rightarrow> request \<Rightarrow> store \<times> response" where
  "login env now s req =
     (case loginSchema env (req_body req) of
        None \<Rightarrow> (s, (400, ValidationErrorBody))
      | Some (e, p) \<Rightarrow>
          (case user_findUnique_email s e of
             None \<Rightarrow> (s, (401, ErrorBody ''Invalid email or password''))
           | Some u \<Rightarrow>
               if \<not> user_isActive u then (s, (403, ErrorBody ''Account is deactivated''))
               else if \<not> comparePassword env p (user_passwordHash u)
                 then (s, (401, ErrorBody ''Invalid email or password''))
               else (s, (200, LoginBody ''Login successful'' (user_id u) (user_email u) (user_roleId u)
                           (user_roleName u)
                           (generateToken env now
                              \<lparr>userId = user_id u, email = user_email u, roleId = user_roleId u\<rparr>)))))"

definition forgotPasswordSchema :: "lib \<Rightarrow> json_object \<Rightarrow> string option" where
  "forgotPasswordSchema env b =
     (case b ''email'' of
        JString e \<Rightarrow> if zod_email env e then Some e else None
      | _ \<Rightarrow> None)"

definition resetPasswordSchema :: "lib \<Rightarrow> json_object \<Rightarrow> (string \<times> string \<times> string) option" where
  "resetPasswordSchema env b =
     (case (b ''email'', b ''otpCode'', b ''newPassword'') of
        (JString e, JString c, JString p) \<Rightarrow>
          if zod_email env e \<and> length c = 6 \<and> length p \<ge> 6 then Some (e, c, p) else None
      | _ \<Rightarrow> None)"

text \<open>
  POST /api/auth/forgot-password, at time \<open>now\<close>, with \<open>random\<close> the value \<open>Math.random()\<close>
  returns inside \<open>generateOTP\<close>.
\<close>

definition forgot_password :: "lib \<Rightarrow> int \<Rightarrow> real \<Rightarrow> store \<Rightarrow> request \<Rightarrow> store \<times> response" where
  "forgot_password env now random s req =
     (case forgotPasswordSchema env (req_body req) of
        None \<Rightarrow> (s, (400, ValidationErrorBody))
      | Some e \<Rightarrow>
          (case user_findUnique_email s e of
             None \<Rightarrow> (s, (200, MessageBody ''If email exists, OTP has been sent''))
           | Some u \<Rightarrow>
               (let otpCode = generateOTP random;
                    otpExpiry = getOTPExpiry now
                in (passwordReset_create (user_id u) otpCode otpExpiry s,
                    (200, OtpBody ''OTP sent to email'' otpCode)))))"

text \<open>
  \<open>prisma.$transaction([...])\<close>: the statements run in order on a working copy of the
  store, which replaces the store only when every statement has succeeded. The database
  may fail the transaction on its own account: \<open>abort = Some i\<close> fails it at statement \<open>i\<close>
  (at the commit when \<open>i\<close> is past the last statement), \<open>None\<close> lets it commit.
\<close>

fun run_tx :: "nat option \<Rightarrow> (store \<Rightarrow> store option) list \<Rightarrow> store \<Rightarrow> store option" where
  "run_tx abort [] w = (if abort = None then Some w else None)"
| "run_tx abort (f # fs) w =
     (if abort = Some 0 then None
      else (case f w of
              None \<Rightarrow> None
            | Some w' \<Rightarrow> run_tx (map_option (\<lambda>i. i - 1) abort) fs w'))"

definition transaction :: "nat option \<Rightarrow> (store \<Rightarrow> store option) list \<Rightarrow> store \<Rightarrow> store option" where
  "transaction abort statements s = run_tx abort statements s"

text \<open>POST /api/auth/reset-password.\<close>

definition reset_password :: "lib \<Rightarrow> int \<Rightarrow> nat option \<Rightarrow> store \<Rightarrow> request \<Rightarrow> store \<times> response" where
  "reset_password env now abort s req =
     (case resetPasswordSchema env (req_body req) of
        None \<Rightarrow> (s, (400, ValidationErrorBody))
      | Some (e, otpCode, newPassword) \<Rightarrow>
          (case user_findUnique_email s e of
             None \<Rightarrow> (s, (400, ErrorBody ''Invalid request''))
           | Some u \<Rightarrow>
               (case passwordReset_findFirst s (user_id u) otpCode now of
                  None \<Rightarrow> (s, (400, ErrorBody ''Invalid or expired OTP''))
                | Some r \<Rightarrow>
                    (let passwordHash = hashPassword env newPassword in
                     case transaction abort
                            [\<lambda>w. map_option fst (user_update_passwordHash (user_id u) passwordHash w),
                             \<lambda>w. map_option fst (passwordReset_update_isUsed (pr_id r) w)] s of
                       None \<Rightarrow> (s, (500, ErrorBody ''Failed to reset password''))
                     | Some s' \<Rightarrow> (s', (200, MessageBody ''Password reset successful''))))))"

section \<open>routes/application.routes.ts\<close>

definition createApplicationSchema :: "json_object \<Rightarrow> int option" where
  "createApplicationSchema b =
     (case b ''postId'' of
        JNumber q \<Rightarrow> if of_int \<lfloor>q\<rfloor> = q then Some \<lfloor>q\<rfloor> else None
      | _ \<Rightarrow> None)"

definition updateStatusSchema :: "json_object \<Rightarrow> string option" where
  "updateStatusSchema b =
     (case b ''status'' of
        JString st \<Rightarrow>
          if st \<in> set [''pending'', ''accepted'', ''rejected'', ''withdrawn''] then Some st else None
      | _ \<Rightarrow> None)"

text \<open>The handler of POST /api/applications, \<open>u\<close> being \<open>req.user\<close>.\<close>

definition createApplication :: "JwtPayload \<Rightarrow> store \<Rightarrow> request \<Rightarrow> store \<times> response" where
  "createApplication u s req =
     (case createApplicationSchema (req_body req) of
        None \<Rightarrow> (s, (400, ValidationErrorBody))
      | Some postId \<Rightarrow>
          (case jobSeekerProfile_findUnique_userId s (userId u) of
             None \<Rightarrow> (s, (404, ErrorBody ''Job seeker profile not found. Please complete your profile first.''))
           | Some profile \<Rightarrow>
               (case shopJobPost_findUnique s postId of
                  None \<Rightarrow> (s, (404, ErrorBody ''Job not found''))
                | Some job \<Rightarrow>
                    if job_status job \<noteq> ''open''
                      then (s, (400, ErrorBody ''Job is no longer accepting applications''))
                    else (case application_findUnique_seekerId_postId s (jsp_id profile) postId of
                            Some existingApplication \<Rightarrow>
                              (s, (400, ErrorBody ''You have already applied to this job''))
                          | None \<Rightarrow>
                              (application_create (jsp_id profile) postId s,
                               (201, ApplicationBody ''Application submitted successfully''
                                       (application_new s (jsp_id profile) postId)))))))"

text \<open>
  The handler of PATCH /api/applications/:id/status. \<open>params_id\<close> is the number
  \<open>parseInt(req.params.id)\<close>, \<open>None\<close> for \<open>NaN\<close>, which the store's query rejects by throwing;
  \<open>include: { post: true }\<close> joins the posting the application refers to.
\<close>

definition updateApplicationStatus :: "JwtPayload \<Rightarrow> store \<Rightarrow> request \<Rightarrow> store \<times> response" where
  "updateApplicationStatus u s req =
     (case updateStatusSchema (req_body req) of
        None \<Rightarrow> (s, (400, ValidationErrorBody))
      | Some st \<Rightarrow>
          (case shop_findUnique_userId s (userId u) of
             None \<Rightarrow> (s, (404, ErrorBody ''Shop profile not found''))
           | Some sh \<Rightarrow>
               (case params_id req of
                  None \<Rightarrow> (s, (500, ErrorBody ''Failed to update application status''))
                | Some i \<Rightarrow>
                    (case application_findUnique s i of
                       None \<Rightarrow> (s, (404, ErrorBody ''Application not found''))
                     | Some a \<Rightarrow>
                         (case shopJobPost_findUnique s (app_postId a) of
                            None \<Rightarrow> (s, (500, ErrorBody ''Failed to update application status''))
                          | Some post \<Rightarrow>
                              if job_shopId post \<noteq> shop_id sh
                                then (s, (403, ErrorBody ''Unauthorized to update this application''))
                              else (case application_update_status i st s of
                                      None \<Rightarrow> (s, (500, ErrorBody ''Failed to update application status''))
                                    | Some (s', updatedApplication) \<Rightarrow>
                                        (s', (200, ApplicationBody ''Application status updated''
                                                     updatedApplication))))))))"

text \<open>The handler of DELETE /api/applications/:id.\<close>

definition deleteApplication :: "JwtPayload \<Rightarrow> store \<Rightarrow> request \<Rightarrow> store \<times> response" where
  "deleteApplication u s req =
     (case jobSeekerProfile_findUnique_userId s (userId u) of
        None \<Rightarrow> (s, (404, ErrorBody ''Job seeker profile not found''))
      | Some profile \<Rightarrow>
          (case params_id req of
             None \<Rightarrow> (s, (500, ErrorBody ''Failed to withdraw application''))
           | Some i \<Rightarrow>
               (case application_findFirst s i (jsp_id profile) of
                  None \<Rightarrow> (s, (404, ErrorBody ''Application not found or unauthorized''))
                | Some a \<Rightarrow>
                    (case application_delete i s of
                       None \<Rightarrow> (s, (500, ErrorBody ''Failed to withdraw application''))
                     | Some s' \<Rightarrow> (s', (200, MessageBody ''Application withdrawn successfully''))))))"

definition post_applications :: "lib \<Rightarrow> int \<Rightarrow> store \<Rightarrow> request \<Rightarrow> store \<times> response" where
  "post_applications env now = protected env now [JOB_SEEKER] createApplication"

definition patch_applications_status :: "lib \<Rightarrow> int \<Rightarrow> store \<Rightarrow> request \<Rightarrow> store \<times> response" where
  "patch_applications_status env now = protected env now [SHOP_OWNER] updateApplicationStatus"

definition delete_applications :: "lib \<Rightarrow> int \<Rightarrow> store \<Rightarrow> request \<Rightarrow> store \<times> response" where
  "delete_applications env now = protected env now [JOB_SEEKER] deleteApplication"

section \<open>routes/job-seeker.routes.ts\<close>

text \<open>The handler of PATCH /api/jobs/:id/status.\<close>

definition updateJobStatus :: "JwtPayload \<Rightarrow> store \<Rightarrow> request \<Rightarrow> store \<times> response" where
  "updateJobStatus u s req =
     (case req_body req ''status'' of
        JString st \<Rightarrow>
          if st \<notin> set [''open'', ''closed'', ''completed''] then (s, (400, ErrorBody ''Invalid status''))
          else
            (case shop_findUnique_userId s (userId u) of
               None \<Rightarrow> (s, (404, ErrorBody ''Shop profile not found''))
             | Some sh \<Rightarrow>
                 (case params_id req of
                    None \<Rightarrow> (s, (500, ErrorBody ''Failed to update job status''))
                  | Some i \<Rightarrow>
                      (case shopJobPost_findFirst s i (shop_id sh) of
                         None \<Rightarrow> (s, (404, ErrorBody ''Job not found or unauthorized''))
                       | Some job \<Rightarrow>
                           (case shopJobPost_update_status i st s of
                              None \<Rightarrow> (s, (500, ErrorBody ''Failed to update job status''))
                            | Some (s', updatedJob) \<Rightarrow>
                                (s', (200, JobBody ''Job status updated'' updatedJob))))))
      | _ \<Rightarrow> (s, (400, ErrorBody ''Invalid status'')))"

definition patch_jobs_status :: "lib \<Rightarrow> int \<Rightarrow> store \<Rightarrow> request \<Rightarrow> store \<times> response" where
  "patch_jobs_status env now = protected env now [SHOP_OWNER] updateJobStatus"

section \<open>A sample deployment\<close>

text \<open>
  A signing key, six tokens, an environment and a store on which the theorems below are
  instantiated: a seeker (user 1), two shop owners (users 2 and 3), a deactivated
  account (user 4), a seeker without a profile (user 5); shop 1 of user 2 with an open
  and a closed posting, shop 2 of user 3 with one open posting; an accepted application
  of seeker 1 to the closed posting and a pending one to the posting of shop 2.
\<close>

definition sample_tokens :: "(string \<times> jwt) list" where
  "sample_tokens =
     [(''seeker'', \<lparr>jwt_payload = \<lparr>userId = 1, email = ''a@x.com'', roleId = 1\<rparr>, jwt_exp = 2000, jwt_key = ''key''\<rparr>),
      (''owner'', \<lparr>jwt_payload = \<lparr>userId = 2, email = ''o@x.com'', roleId = 2\<rparr>, jwt_exp = 2000, jwt_key = ''key''\<rparr>),
      (''newcomer'', \<lparr>jwt_payload = \<lparr>userId = 5, email = ''n@x.com'', roleId = 1\<rparr>, jwt_exp = 2000, jwt_key = ''key''\<rparr>),
      (''other-owner'', \<lparr>jwt_payload = \<lparr>userId = 3, email = ''p@x.com'', roleId = 2\<rparr>, jwt_exp = 2000, jwt_key = ''key''\<rparr>),
      (''forged'', \<lparr>jwt_payload = \<lparr>userId = 2, email = ''o@x.com'', roleId = 2\<rparr>, jwt_exp = 2000, jwt_key = ''guess''\<rparr>),
      (''stale'', \<lparr>jwt_payload = \<lparr>userId = 2, email = ''o@x.com'', roleId = 2\<rparr>, jwt_exp = 1, jwt_key = ''key''\<rparr>)]"

definition sample_env :: lib where
  "sample_env =
     \<lparr>JWT_SECRET = ''key'', JWT_EXPIRES_IN = 604800,
      jwt_encode = (\<lambda>t. ''token''),
      jwt_decode = map_of sample_tokens,
      bcrypt_hash = (\<lambda>p. ''h:'' @ p),
      bcrypt_compare = (\<lambda>p h. h = ''h:'' @ p),
      zod_email = (\<lambda>e. CHR ''@'' \<in> set e)\<rparr>"

definition sample_store :: store where
  "sample_store =
     \<lparr>users =
        [\<lparr>user_id = 1, user_email = ''a@x.com'', user_passwordHash = ''h:secret1'', user_roleId = 1,
          user_roleName = ''job_seeker'', user_isActive = True\<rparr>,
         \<lparr>user_id = 2, user_email = ''o@x.com'', user_passwordHash = ''h:secret2'', user_roleId = 2,
          user_roleName = ''shop_owner'', user_isActive = True\<rparr>,
         \<lparr>user_id = 3, user_email = ''p@x.com'', user_passwordHash = ''h:secret3'', user_roleId = 2,
          user_roleName = ''shop_owner'', user_isActive = True\<rparr>,
         \<lparr>user_id = 4, user_email = ''d@x.com'', user_passwordHash = ''h:secret4'', user_roleId = 1,
          user_roleName = ''job_seeker'', user_isActive = False\<rparr>,
         \<lparr>user_id = 5, user_email = ''n@x.com'', user_passwordHash = ''h:secret5'', user_roleId = 1,
          user_roleName = ''job_seeker'', user_isActive = True\<rparr>],
      passwordResets =
        [\<lparr>pr_id = 1, pr_userId = 1, pr_otpCode = ''123456'', pr_otpExpiry = 5000, pr_isUsed = False\<rparr>],
      jobSeekerProfiles = [\<lparr>jsp_id = 1, jsp_userId = 1\<rparr>],
      shops = [\<lparr>shop_id = 1, shop_userId = 2\<rparr>, \<lparr>shop_id = 2, shop_userId = 3\<rparr>],
      shopJobPosts =
        [\<lparr>job_id = 1, job_shopId = 1, job_status = ''open''\<rparr>,
         \<lparr>job_id = 2, job_shopId = 1, job_status = ''closed''\<rparr>,
         \<lparr>job_id = 3, job_shopId = 2, job_status = ''open''\<rparr>],
      applications =
        [\<lparr>app_id = 1, app_seekerId = 1, app_postId = 2, app_status = ''accepted''\<rparr>,
         \<lparr>app_id = 2, app_seekerId = 1, app_postId = 3, app_status = ''pending''\<rparr>]\<rparr>"

text \<open>The same store after two recovery requests of user 1 drew the same code.\<close>

definition sample_store_same_code :: store where
  "sample_store_same_code =
     sample_store\<lparr>passwordResets :=
        [\<lparr>pr_id = 1, pr_userId = 1, pr_otpCode = ''123456'', pr_otpExpiry = 5000, pr_isUsed = False\<rparr>,
         \<lparr>pr_id = 2, pr_userId = 1, pr_otpCode = ''123456'', pr_otpExpiry = 6000, pr_isUsed = False\<rparr>]\<rparr>"

definition reset_body :: "string \<Rightarrow> string \<Rightarrow> string \<Rightarrow> json_object" where
  "reset_body e code newPassword =
     (\<lambda>k. JUndefined)(''email'' := JString e, ''otpCode'' := JString code, ''newPassword'' := JString newPassword)"

definition no_body :: json_object where
  "no_body = (\<lambda>k. JUndefined)"

definition public_request :: "json_object \<Rightarrow> request" where
  "public_request b = \<lparr>authorization = None, params_id = None, req_body = b\<rparr>"

definition sample_request :: "string \<Rightarrow> int \<Rightarrow> json_object \<Rightarrow> request" where
  "sample_request token i b =
     \<lparr>authorization = Some (''Bearer '' @ token), params_id = Some i, req_body = b\<rparr>"

declare digits.simps [simp del]

lemmas store_defs =
  user_findUnique_email_def user_update_passwordHash_def passwordReset_create_def
  passwordReset_findFirst_def passwordReset_update_isUsed_def
  jobSeekerProfile_findUnique_userId_def shop_findUnique_userId_def
  shopJobPost_findUnique_def shopJobPost_findFirst_def shopJobPost_update_status_def
  application_findUnique_def application_findUnique_seekerId_postId_def
  application_findFirst_def application_new_def application_create_def
  application_update_status_def application_delete_def nextId_def

lemmas auth_defs =
  authenticate_def requireRole_def protected_def verifyToken_def jwt_verify_def
  startsWith_def JOB_SEEKER_def SHOP_OWNER_def

lemmas sample_defs =
  sample_env_def sample_tokens_def sample_store_def sample_request_def no_body_def
  sample_store_same_code_def reset_body_def public_request_def

section \<open>Properties\<close>

subsection \<open>Helper facts\<close>

lemma protected_authorized:
  "authenticate env now req = Inr u \<Longrightarrow> roleId u \<in> set roles \<Longrightarrow>
   protected env now roles handler s req = handler u s req"
  by (simp add: protected_def requireRole_def)

lemma find_weaken:
  "find (\<lambda>x. P x \<and> Q x) xs = Some y \<Longrightarrow> \<exists>z. find P xs = Some z"
  by (induction xs) (auto split: if_splits)

lemma find_in_set: "find P xs = Some y \<Longrightarrow> y \<in> set xs"
  by (induction xs) (auto split: if_splits)

lemma find_member: "y \<in> set xs \<Longrightarrow> P y \<Longrightarrow> \<exists>z. find P xs = Some z"
  by (induction xs) auto

lemma find_other_owner:
  "distinct (map key xs) \<Longrightarrow> find (\<lambda>x. key x = i) xs = Some y \<Longrightarrow> owner y \<noteq> sid \<Longrightarrow>
   find (\<lambda>x. key x = i \<and> owner x = sid) xs = None"
  by (induction xs) (auto split: if_splits simp: find_None_iff image_iff)

lemma find_absent:
  "find (\<lambda>x. key x = i) xs = None \<Longrightarrow> find (\<lambda>x. key x = i \<and> owner x = sid) xs = None"
  by (auto simp: find_None_iff)

subsection \<open>Login\<close>

lemma loginSchema_bcrypt_compare:
  "loginSchema (env\<lparr>bcrypt_compare := cmp\<rparr>) b = loginSchema env b"
  by (simp add: loginSchema_def split: json.splits)

lemma login_unknown_email:
  assumes "loginSchema env (req_body req) = Some (e, p)"
    and "user_findUnique_email s e = None"
  shows "login env now s req = (s, (401, ErrorBody ''Invalid email or password''))"
  using assms by (simp add: login_def)

lemma login_wrong_password:
  assumes "loginSchema env (req_body req) = Some (e, p)"
    and "user_findUnique_email s e = Some u"
    and "user_isActive u"
    and "\<not> comparePassword env p (user_passwordHash u)"
  shows "login env now s req = (s, (401, ErrorBody ''Invalid email or password''))"
  using assms by (simp add: login_def)

text \<open>
  Claim C10. A login whose email resolves to an identity with the active flag false is
  rejected with 403 "Account is deactivated" before the password is compared: the response
  is the same whatever \<open>bcrypt.compare\<close> would answer, and it is not the 401
  "Invalid email or password" that an unknown email or a wrong password gets.
\<close>

theorem login_deactivated_rejected:
  assumes "loginSchema env (req_body req) = Some (e, p)"
    and "user_findUnique_email s e = Some u"
    and "\<not> user_isActive u"
  shows "login (env\<lparr>bcrypt_compare := cmp\<rparr>) now s req = (s, (403, ErrorBody ''Account is deactivated''))
       \<and> (403, ErrorBody ''Account is deactivated'') \<noteq> (401 :: nat, ErrorBody ''Invalid email or password'')"
  using assms by (simp add: login_def loginSchema_bcrypt_compare)

text \<open>
  The deactivated account of the sample store, with a comparison that accepts every
  password and with one that rejects every password.
\<close>

theorem login_deactivated_rejected_witness:
  "login (sample_env\<lparr>bcrypt_compare := (\<lambda>p h. True)\<rparr>) 1000 sample_store
      (public_request (no_body(''email'' := JString ''d@x.com'', ''password'' := JString ''wrong'')))
     = (sample_store, (403, ErrorBody ''Account is deactivated''))
   \<and> login (sample_env\<lparr>bcrypt_compare := (\<lambda>p h. False)\<rparr>) 1000 sample_store
      (public_request (no_body(''email'' := JString ''d@x.com'', ''password'' := JString ''secret4'')))
     = (sample_store, (403, ErrorBody ''Account is deactivated''))"
proof -
  let ?u = "\<lparr>user_id = 4, user_email = ''d@x.com'', user_passwordHash = ''h:secret4'', user_roleId = 1,
          user_roleName = ''job_seeker'', user_isActive = False\<rparr>"
  have a: "\<And>p. loginSchema sample_env
        (req_body (public_request (no_body(''email'' := JString ''d@x.com'', ''password'' := JString p))))
      = Some (''d@x.com'', p)"
    by (simp add: loginSchema_def sample_defs)
  have b: "user_findUnique_email sample_store ''d@x.com'' = Some ?u"
    by (simp add: store_defs sample_defs)
  have c: "\<not> user_isActive ?u" by simp
  show ?thesis
    using login_deactivated_rejected [OF a b c, of "\<lambda>p h. True" 1000]
          login_deactivated_rejected [OF a b c, of "\<lambda>p h. False" 1000]
    by simp
qed

subsection \<open>Token verification\<close>

text \<open>
  Claim C8, amended. \<open>verifyToken\<close> fails with the one error "Invalid or expired token"
  both when the signature does not match the signing key and when the clock has reached
  the embedded expiry; it returns the payload otherwise. The cause is dropped by its
  \<open>catch\<close>, so no caller can tell the two failures apart, and \<open>authenticate\<close> answers
  either with 401 "Invalid or expired token".
\<close>

theorem verifyToken_single_error:
  "(jwt_decode env token = Some t \<and> jwt_key t \<noteq> JWT_SECRET env \<longrightarrow>
      verifyToken env now token = Inl (Error ''Invalid or expired token''))
   \<and> (jwt_decode env token = Some t \<and> jwt_key t = JWT_SECRET env \<and> now div 1000 \<ge> jwt_exp t \<longrightarrow>
      verifyToken env now token = Inl (Error ''Invalid or expired token''))
   \<and> (jwt_decode env token = Some t \<and> jwt_key t = JWT_SECRET env \<and> now div 1000 < jwt_exp t \<longrightarrow>
      verifyToken env now token = Inr (jwt_payload t))
   \<and> (authorization req = Some (''Bearer '' @ token) \<and> verifyToken env now token = Inl e \<longrightarrow>
      authenticate env now req = Inl (401, ErrorBody ''Invalid or expired token''))"
  by (simp add: verifyToken_def jwt_verify_def authenticate_def startsWith_def)

text \<open>
  Claim C8, as stated, fails: \<open>jwt.verify\<close> raises two different errors for a forged and
  for an expired token, and \<open>verifyToken\<close> turns both into the same error value.
\<close>

theorem verifyToken_causes_merged:
  "jwt_verify sample_env 1000 ''forged'' (JWT_SECRET sample_env) = Inl (JsonWebTokenError ''invalid signature'')
   \<and> jwt_verify sample_env 1000 ''stale'' (JWT_SECRET sample_env) = Inl TokenExpiredError
   \<and> verifyToken sample_env 1000 ''forged'' = Inl (Error ''Invalid or expired token'')
   \<and> verifyToken sample_env 1000 ''stale'' = Inl (Error ''Invalid or expired token'')"
  by (simp add: verifyToken_def jwt_verify_def sample_defs)

text \<open>
  A forged, an expired (exactly at its expiry) and a valid token of the sample
  environment.
\<close>

theorem verifyToken_single_error_witness:
  "verifyToken sample_env 1000 ''forged'' = Inl (Error ''Invalid or expired token'')
   \<and> verifyToken sample_env 1000 ''stale'' = Inl (Error ''Invalid or expired token'')
   \<and> verifyToken sample_env 1000 ''owner'' = Inr \<lparr>userId = 2, email = ''o@x.com'', roleId = 2\<rparr>
   \<and> authenticate sample_env 1000 (sample_request ''stale'' 0 no_body)
       = Inl (401, ErrorBody ''Invalid or expired token'')
   \<and> authenticate sample_env 1000 (sample_request ''forged'' 0 no_body)
       = Inl (401, ErrorBody ''Invalid or expired token'')"
proof -
  let ?o = "\<lparr>userId = 2, email = ''o@x.com'', roleId = 2\<rparr>"
  let ?forged = "\<lparr>jwt_payload = ?o, jwt_exp = 2000, jwt_key = ''guess''\<rparr>"
  let ?stale = "\<lparr>jwt_payload = ?o, jwt_exp = 1, jwt_key = ''key''\<rparr>"
  let ?owner = "\<lparr>jwt_payload = ?o, jwt_exp = 2000, jwt_key = ''key''\<rparr>"
  have d: "jwt_decode sample_env ''forged'' = Some ?forged"
    "jwt_decode sample_env ''stale'' = Some ?stale"
    "jwt_decode sample_env ''owner'' = Some ?owner"
    by (simp_all add: sample_defs)
  have k: "jwt_key ?forged \<noteq> JWT_SECRET sample_env" "jwt_key ?stale = JWT_SECRET sample_env"
    "jwt_key ?owner = JWT_SECRET sample_env" "(1000::int) div 1000 \<ge> jwt_exp ?stale"
    "(1000::int) div 1000 < jwt_exp ?owner"
    by (simp_all add: sample_defs)
  have h: "\<And>t. authorization (sample_request t 0 no_body) = Some (''Bearer '' @ t)"
    by (simp add: sample_defs)
  have f: "verifyToken sample_env 1000 ''forged'' = Inl (Error ''Invalid or expired token'')"
    using verifyToken_single_error [of sample_env "''forged''" ?forged 1000] d k by simp
  have s: "verifyToken sample_env 1000 ''stale'' = Inl (Error ''Invalid or expired token'')"
    using verifyToken_single_error [of sample_env "''stale''" ?stale 1000] d k by simp
  have v: "verifyToken sample_env 1000 ''owner'' = Inr ?o"
    using verifyToken_single_error [of sample_env "''owner''" ?owner 1000] d k by simp
  have a1: "authenticate sample_env 1000 (sample_request ''stale'' 0 no_body)
       = Inl (401, ErrorBody ''Invalid or expired token'')"
    using verifyToken_single_error [of sample_env "''stale''" ?stale 1000 "sample_request ''stale'' 0 no_body"] h s
    by simp
  have a2: "authenticate sample_env 1000 (sample_request ''forged'' 0 no_body)
       = Inl (401, ErrorBody ''Invalid or expired token'')"
    using verifyToken_single_error [of sample_env "''forged''" ?forged 1000 "sample_request ''forged'' 0 no_body"] h f
    by simp
  show ?thesis using f s v a1 a2 by simp
qed

subsection \<open>The OTP generator\<close>

lemma round_even_cases:
  "round_even y = \<lfloor>y\<rfloor> \<and> y - of_int \<lfloor>y\<rfloor> \<le> 1 / 2
   \<or> round_even y = \<lfloor>y\<rfloor> + 1 \<and> y - of_int \<lfloor>y\<rfloor> \<ge> 1 / 2"
  by (simp add: round_even_def Let_def)

lemma round_even_le: "y < of_int n + 1 / 2 \<Longrightarrow> round_even y \<le> n"
  using round_even_cases [of y] by (elim disjE conjE) linarith+

lemma round_even_ge: "of_int n - 1 / 2 < y \<Longrightarrow> n \<le> round_even y"
  using round_even_cases [of y] by (elim disjE conjE) linarith+

lemma round_even_of_int: "round_even (of_int n) = n"
  by (simp add: round_even_def)

lemma ulp_pos: "0 < ulp x"
  by (simp add: ulp_def)

lemma rnd_le:
  assumes "0 < x" and "x \<le> ulp x * of_int n"
  shows "rnd x \<le> ulp x * of_int n"
proof -
  have "x / ulp x \<le> of_int n"
    using assms(2) ulp_pos [of x] by (simp add: field_simps)
  then have "round_even (x / ulp x) \<le> n"
    by (intro round_even_le) linarith
  then have "ulp x * of_int (round_even (x / ulp x)) \<le> ulp x * of_int n"
    using ulp_pos [of x] by simp
  then show ?thesis using assms(1) by (simp add: rnd_def)
qed

lemma rnd_ge:
  assumes "0 < x" and "ulp x * of_int n \<le> x"
  shows "ulp x * of_int n \<le> rnd x"
proof -
  have "of_int n \<le> x / ulp x"
    using assms(2) ulp_pos [of x] by (simp add: field_simps)
  then have "n \<le> round_even (x / ulp x)"
    by (intro round_even_ge) linarith
  then have "ulp x * of_int n \<le> ulp x * of_int (round_even (x / ulp x))"
    using ulp_pos [of x] by simp
  then show ?thesis using assms(1) by (simp add: rnd_def)
qed

lemma binade_upper:
  assumes "0 < x"
  shows "x < 2 powr (of_int (binade x) + 1)"
proof -
  have "x < 2 powr (of_int \<lfloor>log 2 x\<rfloor> + 1)"
    using floor_log_eq_powr_iff [of x 2 "\<lfloor>log 2 x\<rfloor>"] assms by simp
  also have "\<dots> \<le> 2 powr (of_int (binade x) + 1)"
    using assms by (simp add: binade_def)
  finally show ?thesis .
qed

lemma binade_le:
  assumes "0 < x" and "x < 2 powr (of_int k + 1)" and "- 1022 \<le> k"
  shows "binade x \<le> k"
proof -
  have "log 2 x < of_int k + 1"
    using assms(1,2) by (simp add: log_less_iff)
  then have "\<lfloor>log 2 x\<rfloor> \<le> k" by linarith
  then show ?thesis using assms(1,3) by (simp add: binade_def)
qed

lemma binade_ge:
  assumes "0 < x" and "2 powr of_int k \<le> x"
  shows "k \<le> binade x"
proof -
  have "of_int k \<le> log 2 x"
    using assms by (simp add: le_log_iff)
  then have "k \<le> \<lfloor>log 2 x\<rfloor>" by linarith
  then show ?thesis using assms(1) by (simp add: binade_def)
qed

lemma grid_multiple:
  assumes "binade x \<le> 19"
  shows "of_int m * 2 powr (- 33) = ulp x * of_int (m * 2 ^ nat (19 - binade x))"
proof -
  have "(2::real) powr real_of_int (19 - binade x) = 2 ^ nat (19 - binade x)"
    by (subst powr_real_of_int) (use assms in auto)
  then have "ulp x * 2 ^ nat (19 - binade x)
      = 2 powr (of_int (binade x) - 52) * 2 powr real_of_int (19 - binade x)"
    by (simp only: ulp_def)
  also have "\<dots> = 2 powr (- 33)"
    by (simp add: powr_add [symmetric])
  finally have "ulp x * 2 ^ nat (19 - binade x) = 2 powr (- 33)" .
  then show ?thesis by (simp add: algebra_simps)
qed

lemma rnd_le_grid:
  assumes "0 < x" and "binade x \<le> 19" and "x \<le> of_int m * 2 powr (- 33)"
  shows "rnd x \<le> of_int m * 2 powr (- 33)"
  using rnd_le [OF assms(1), of "m * 2 ^ nat (19 - binade x)"] assms(3)
  unfolding grid_multiple [OF assms(2), of m] by simp

lemma rnd_ge_grid:
  assumes "0 < x" and "binade x \<le> 19" and "of_int m * 2 powr (- 33) \<le> x"
  shows "of_int m * 2 powr (- 33) \<le> rnd x"
  using rnd_ge [OF assms(1), of "m * 2 ^ nat (19 - binade x)"] assms(3)
  unfolding grid_multiple [OF assms(2), of m] by simp

lemma rnd_grid_fixed:
  assumes "0 < x" and "binade x \<le> 19" and "x = of_int m * 2 powr (- 33)"
  shows "rnd x = x"
  using rnd_le_grid [OF assms(1,2), of m] rnd_ge_grid [OF assms(1,2), of m] assms(3) by simp

lemma two_powr_neg:
  "(2::real) powr (- 1) = 1 / 2" "(2::real) powr (- 33) = 1 / 2 ^ 33" "(2::real) powr (- 53) = 1 / 2 ^ 53"
  by (simp_all add: powr_minus_divide)

lemma largest_below_one:
  assumes "is_double r" and "0 \<le> r" and "r < 1"
  shows "r \<le> 1 - 2 powr (- 53)"
proof (cases "r = 0")
  case True
  then show ?thesis by (simp add: two_powr_neg)
next
  case False
  then have pos: "0 < r" using assms(2) by simp
  have b: "binade r \<le> - 1"
    by (rule binade_le) (use pos assms(3) in simp_all)
  show ?thesis
  proof (cases "binade r = - 1")
    case True
    then have u: "ulp r = 1 / 2 ^ 53" by (simp add: ulp_def two_powr_neg)
    define n where "n = round_even (r / ulp r)"
    have "rnd r = ulp r * of_int n"
      using pos by (simp add: rnd_def n_def)
    then have r: "r = of_int n / 2 ^ 53"
      using assms(1) by (simp add: is_double_def u)
    then have "real_of_int n < of_int (2 ^ 53)"
      using assms(3) by (simp add: field_simps)
    then have "n < 2 ^ 53" by (simp only: of_int_less_iff)
    then have "n \<le> 2 ^ 53 - 1" by simp
    then have "real_of_int n \<le> of_int (2 ^ 53 - 1)" by (simp only: of_int_le_iff)
    then show ?thesis by (simp add: r two_powr_neg field_simps)
  next
    case False
    then have "binade r \<le> - 2" using b by simp
    then have "(2::real) powr (of_int (binade r) + 1) \<le> 2 powr (- 1)"
      by (intro powr_mono) simp_all
    then have "r < 2 powr (- 1)" using binade_upper [OF pos] by linarith
    then show ?thesis by (simp add: two_powr_neg)
  qed
qed

lemma product_rounds_below:
  assumes "0 \<le> r" and "r \<le> 1 - 2 powr (- 53)"
  shows "0 \<le> fmul r 900000 \<and> fmul r 900000 \<le> 900000 - 2 powr (- 33)"
proof (cases "r = 0")
  case True
  then show ?thesis by (simp add: fmul_def rnd_def two_powr_neg)
next
  case False
  define p where "p = r * 900000"
  have pos: "0 < p" using False assms(1) by (simp add: p_def)
  have le: "p \<le> 900000 - 900000 / 2 ^ 53" using assms(2) by (simp add: p_def two_powr_neg)
  have b: "binade p \<le> 19"
    by (rule binade_le) (use pos le in simp_all)
  have lower: "0 \<le> rnd p"
    using rnd_ge_grid [OF pos b, of 0] pos by simp
  have upper: "rnd p \<le> 900000 - 1 / 2 ^ 33"
  proof (cases "binade p = 19")
    case True
    then have u: "ulp p = 1 / 2 ^ 33" by (simp add: ulp_def two_powr_neg)
    have "p / ulp p < of_int (900000 * 2 ^ 33 - 1) + 1 / 2"
      using le by (simp add: u)
    then have "round_even (p / ulp p) \<le> 900000 * 2 ^ 33 - 1"
      by (rule round_even_le)
    then have "real_of_int (round_even (p / ulp p)) \<le> of_int (900000 * 2 ^ 33 - 1)"
      by (simp only: of_int_le_iff)
    then show ?thesis using pos by (simp add: rnd_def u field_simps)
  next
    case False
    then have "binade p \<le> 18" using b by simp
    then have "(2::real) powr (of_int (binade p) + 1) \<le> 2 powr 19"
      by (intro powr_mono) simp_all
    then have "p \<le> of_int (2 ^ 52) * 2 powr (- 33)"
      using binade_upper [OF pos] by (simp add: two_powr_neg)
    then have "rnd p \<le> of_int (2 ^ 52) * 2 powr (- 33)"
      by (rule rnd_le_grid [OF pos b])
    then show ?thesis by (simp add: two_powr_neg)
  qed
  show ?thesis using lower upper by (simp add: fmul_def p_def two_powr_neg)
qed

lemma sum_rounds_within:
  assumes "0 \<le> y" and "y \<le> 900000 - 2 powr (- 33)"
  shows "100000 \<le> fadd 100000 y \<and> fadd 100000 y \<le> 1000000 - 2 powr (- 33)"
proof -
  define s where "s = 100000 + y"
  have pos: "0 < s" using assms(1) by (simp add: s_def)
  have b: "binade s \<le> 19"
    by (rule binade_le) (use pos assms(2) in \<open>simp_all add: s_def two_powr_neg\<close>)
  have "of_int (100000 * 2 ^ 33) * 2 powr (- 33) \<le> s"
    using assms(1) by (simp add: s_def two_powr_neg)
  then have lower: "of_int (100000 * 2 ^ 33) * 2 powr (- 33) \<le> rnd s"
    by (rule rnd_ge_grid [OF pos b])
  have "s \<le> of_int (1000000 * 2 ^ 33 - 1) * 2 powr (- 33)"
    using assms(2) by (simp add: s_def two_powr_neg field_simps)
  then have upper: "rnd s \<le> of_int (1000000 * 2 ^ 33 - 1) * 2 powr (- 33)"
    by (rule rnd_le_grid [OF pos b])
  show ?thesis using lower upper by (simp add: fadd_def s_def two_powr_neg field_simps)
qed

lemma digit_char:
  assumes "d < 10"
  shows "isDigit (''0123456789'' ! d) \<and> digitValue (''0123456789'' ! d) = d"
proof -
  have "d \<in> {0, 1, 2, 3, 4, 5, 6, 7, 8, 9}" using assms by auto
  then show ?thesis by (auto simp: isDigit_def digitValue_def)
qed

lemma digits_all_digits: "list_all isDigit (digits n)"
proof (induction n rule: digits.induct)
  case (1 n)
  show ?case
  proof (cases "n < 10")
    case True
    then show ?thesis by (subst digits.simps) (simp add: digit_char)
  next
    case False
    then show ?thesis using 1 by (subst digits.simps) (simp add: digit_char)
  qed
qed

lemma numericValue_snoc: "numericValue (xs @ [c]) = 10 * numericValue xs + digitValue c"
  by (simp add: numericValue_def)

lemma numericValue_digits: "numericValue (digits n) = n"
proof (induction n rule: digits.induct)
  case (1 n)
  show ?case
  proof (cases "n < 10")
    case True
    then show ?thesis by (subst digits.simps) (simp add: numericValue_def digit_char)
  next
    case False
    then show ?thesis using 1 by (subst digits.simps) (simp add: numericValue_snoc digit_char)
  qed
qed

lemma length_digits: "10 ^ k \<le> n \<Longrightarrow> n < 10 ^ Suc k \<Longrightarrow> length (digits n) = Suc k"
proof (induction k arbitrary: n)
  case 0
  then show ?case by (subst digits.simps) simp
next
  case (Suc k)
  have big: "\<not> n < 10"
  proof -
    have "(1::nat) \<le> 10 ^ k" by simp
    then show ?thesis using Suc.prems(1) unfolding power_Suc by linarith
  qed
  have "10 ^ k \<le> n div 10" "n div 10 < 10 ^ Suc k"
    using Suc.prems by (simp_all add: less_mult_imp_div_less le_div_geq  div_le_mono2 )
  then have "length (digits (n div 10)) = Suc k" by (rule Suc.IH)
  then show ?case using big by (subst digits.simps) simp
qed

text \<open>
  Claim C9. For every binary64 value that \<open>Math.random()\<close> can return, at least 0 and
  below 1, \<open>generateOTP\<close> returns a string of exactly six decimal digits whose numeric
  value lies between 100000 and 999999, both included. The product and the sum are
  rounded as the machine rounds them: the largest value below 1 is \<open>1 - 2 powr (-53)\<close>,
  its product with 900000 rounds to \<open>900000 - 2 powr (-33)\<close> and not up to 900000, and the
  sum stays below 1000000.
\<close>

theorem generateOTP_six_digits:
  assumes "is_double random" and "0 \<le> random" and "random < 1"
  shows "length (generateOTP random) = 6
       \<and> list_all isDigit (generateOTP random)
       \<and> 100000 \<le> numericValue (generateOTP random)
       \<and> numericValue (generateOTP random) \<le> 999999"
proof -
  define v where "v = fadd 100000 (fmul random 900000)"
  have r: "random \<le> 1 - 2 powr (- 53)"
    using assms by (rule largest_below_one)
  have "100000 \<le> v \<and> v \<le> 1000000 - 2 powr (- 33)"
    unfolding v_def using product_rounds_below [OF assms(2) r] by (intro sum_rounds_within) simp_all
  then have "100000 \<le> v" "v < 1000000" by (simp_all add: two_powr_neg)
  then have f: "100000 \<le> Math_floor v" "Math_floor v \<le> 999999"
    unfolding Math_floor_def by linarith+
  define n where "n = nat (Math_floor v)"
  have n: "10 ^ 5 \<le> n" "n < 10 ^ Suc 5" using f by (simp_all add: n_def)
  have otp: "generateOTP random = digits n"
    using f by (simp add: generateOTP_def toString_def v_def n_def)
  show ?thesis
    using length_digits [OF n] n
    by (simp add: otp digits_all_digits numericValue_digits)
qed

lemma is_double_half: "is_double (1 / 2)"
proof -
  have "binade (1 / 2) \<le> - 1"
    by (rule binade_le) simp_all
  moreover have "- 1 \<le> binade (1 / 2)"
    by (rule binade_ge) (simp_all add: two_powr_neg)
  ultimately have "binade (1 / 2) = - 1" by simp
  then have u: "ulp (1 / 2) = 1 / 2 ^ 53" by (simp add: ulp_def two_powr_neg)
  have "round_even ((1 / 2) / ulp (1 / 2)) = 2 ^ 52"
    using round_even_of_int [of "2 ^ 52"] by (simp add: u)
  then show ?thesis by (simp add: is_double_def rnd_def u)
qed

lemma generateOTP_half: "generateOTP (1 / 2) = ''550000''"
proof -
  have a: "rnd 450000 = 450000"
    by (rule rnd_grid_fixed [where m = "450000 * 2 ^ 33"], simp, rule binade_le)
       (simp_all add: two_powr_neg)
  have b: "rnd 550000 = 550000"
    by (rule rnd_grid_fixed [where m = "550000 * 2 ^ 33"], simp, rule binade_le)
       (simp_all add: two_powr_neg)
  have "Math_floor (fadd 100000 (fmul (1 / 2) 900000)) = 550000"
    by (simp add: fmul_def fadd_def a b Math_floor_def)
  then show ?thesis
    by (simp add: generateOTP_def toString_def digits.simps)
qed

lemma is_double_largest: "is_double (1 - 1 / 2 ^ 53)"
proof -
  define x :: real where "x = 1 - 1 / 2 ^ 53"
  have pos: "0 < x" by (simp add: x_def)
  have "binade x \<le> - 1"
    by (rule binade_le) (simp_all add: x_def)
  moreover have "- 1 \<le> binade x"
    by (rule binade_ge) (simp_all add: x_def two_powr_neg)
  ultimately have "binade x = - 1" by simp
  then have u: "ulp x = 1 / 2 ^ 53" by (simp add: ulp_def two_powr_neg)
  have e: "x / ulp x = of_int (2 ^ 53 - 1)"
    unfolding u by (simp add: x_def)
  have r: "round_even (x / ulp x) = 2 ^ 53 - 1"
    unfolding e by (rule round_even_of_int)
  have "rnd x = ulp x * of_int (round_even (x / ulp x))"
    using pos by (simp add: rnd_def)
  also have "\<dots> = ulp x * of_int (2 ^ 53 - 1)"
    by (simp only: r)
  also have "\<dots> = x"
    unfolding u by (simp add: x_def)
  finally show ?thesis
    unfolding is_double_def x_def .
qed

lemma generateOTP_largest: "generateOTP (1 - 1 / 2 ^ 53) = ''999999''"
proof -
  define p :: real where "p = (1 - 1 / 2 ^ 53) * 900000"
  have pos: "0 < p" by (simp add: p_def)
  have "binade p \<le> 19"
    by (rule binade_le) (simp_all add: p_def)
  moreover have "19 \<le> binade p"
    by (rule binade_ge) (simp_all add: p_def)
  ultimately have "binade p = 19" by simp
  then have u: "ulp p = 1 / 2 ^ 33" by (simp add: ulp_def two_powr_neg)
  have "round_even (p / ulp p) \<le> 900000 * 2 ^ 33 - 1"
    unfolding u by (rule round_even_le) (simp add: p_def)
  moreover have "900000 * 2 ^ 33 - 1 \<le> round_even (p / ulp p)"
    unfolding u by (rule round_even_ge) (simp add: p_def)
  ultimately have r: "round_even (p / ulp p) = 900000 * 2 ^ 33 - 1" by simp
  have "rnd p = ulp p * of_int (round_even (p / ulp p))"
    using pos by (simp add: rnd_def)
  also have "\<dots> = ulp p * of_int (900000 * 2 ^ 33 - 1)"
    by (simp only: r)
  also have "\<dots> = 900000 - 1 / 2 ^ 33"
    unfolding u by simp
  finally have a: "rnd p = 900000 - 1 / 2 ^ 33" .
  have b: "rnd (1000000 - 1 / 2 ^ 33) = 1000000 - 1 / 2 ^ 33"
    by (rule rnd_grid_fixed [where m = "1000000 * 2 ^ 33 - 1"], simp, rule binade_le)
       (simp_all add: two_powr_neg)
  have "fadd 100000 (fmul (1 - 1 / 2 ^ 53) 900000) = 1000000 - 1 / 2 ^ 33"
    unfolding fmul_def fadd_def p_def [symmetric] a using b by simp
  moreover have "\<lfloor>1000000 - 1 / 2 ^ 33 :: real\<rfloor> = 999999"
    by (simp add: floor_eq_iff)
  ultimately have "Math_floor (fadd 100000 (fmul (1 - 1 / 2 ^ 53) 900000)) = 999999"
    by (simp only: Math_floor_def)
  then show ?thesis
    by (simp add: generateOTP_def toString_def digits.simps)
qed

text \<open>
  The largest draw, \<open>1 - 1 / 2 ^ 53\<close>, is representable and gives the code 999999; the
  draw 1/2 gives 550000.
\<close>

theorem generateOTP_six_digits_witness:
  "is_double (1 - 1 / 2 ^ 53) \<and> generateOTP (1 - 1 / 2 ^ 53) = ''999999''
   \<and> length (generateOTP (1 - 1 / 2 ^ 53)) = 6 \<and> list_all isDigit (generateOTP (1 - 1 / 2 ^ 53))
   \<and> 100000 \<le> numericValue (generateOTP (1 - 1 / 2 ^ 53))
   \<and> numericValue (generateOTP (1 - 1 / 2 ^ 53)) \<le> 999999
   \<and> is_double (1 / 2) \<and> generateOTP (1 / 2) = ''550000''
   \<and> length (generateOTP (1 / 2)) = 6 \<and> numericValue (generateOTP (1 / 2)) \<le> 999999"
proof -
  have l: "(0::real) \<le> 1 - 1 / 2 ^ 53" "(1::real) - 1 / 2 ^ 53 < 1" by simp_all
  have h: "(0::real) \<le> 1 / 2" "(1::real) / 2 < 1" by simp_all
  show ?thesis
    using generateOTP_six_digits [OF is_double_largest l] generateOTP_six_digits [OF is_double_half h]
      is_double_largest is_double_half generateOTP_largest generateOTP_half
    by simp
qed

subsection \<open>Requesting a password reset\<close>

lemma forgot_password_unknown_email:
  assumes "forgotPasswordSchema env (req_body req) = Some e"
    and "user_findUnique_email s e = None"
  shows "forgot_password env now random s req = (s, (200, MessageBody ''If email exists, OTP has been sent''))"
  using assms by (simp add: forgot_password_def)

lemma forgot_password_known_email:
  assumes "forgotPasswordSchema env (req_body req) = Some e"
    and "user_findUnique_email s e = Some u"
  shows "forgot_password env now random s req =
     (passwordReset_create (user_id u) (generateOTP random) (getOTPExpiry now) s,
      (200, OtpBody ''OTP sent to email'' (generateOTP random)))"
  using assms by (simp add: forgot_password_def Let_def)

text \<open>
  Claim C1 on the sample store. For an email without an identity the request succeeds
  with the message "If email exists, OTP has been sent" and the store is unchanged (that
  half of the claim holds); for an email with an identity it succeeds with another body,
  the message "OTP sent to email" and the code itself, so the two responses are not the
  same, against the handler's own comment "Don't reveal if email exists".
\<close>

theorem forgot_password_reveals_existence:
  "forgot_password sample_env now random sample_store
      (public_request (no_body(''email'' := JString ''nobody@x.com'')))
     = (sample_store, (200, MessageBody ''If email exists, OTP has been sent''))
   \<and> forgot_password sample_env now random sample_store
      (public_request (no_body(''email'' := JString ''a@x.com'')))
     = (sample_store\<lparr>passwordResets := passwordResets sample_store @
          [\<lparr>pr_id = 2, pr_userId = 1, pr_otpCode = generateOTP random,
            pr_otpExpiry = now + 600000, pr_isUsed = False\<rparr>]\<rparr>,
        (200, OtpBody ''OTP sent to email'' (generateOTP random)))
   \<and> MessageBody ''If email exists, OTP has been sent'' \<noteq> OtpBody ''OTP sent to email'' (generateOTP random)"
  by (simp add: forgot_password_def forgotPasswordSchema_def getOTPExpiry_def Let_def store_defs sample_defs)

subsection \<open>Consuming a password reset\<close>

lemma run_tx_abort: "run_tx (Some i) statements w = None"
  by (induction statements arbitrary: i w) (auto split: option.splits)

lemma transaction_pair:
  "transaction abort [f, g] s =
     (if abort = None then (case f s of None \<Rightarrow> None | Some w \<Rightarrow> g w) else None)"
  by (cases abort) (auto simp: transaction_def run_tx_abort split: option.splits)

lemma reset_password_matched:
  assumes "resetPasswordSchema env (req_body req) = Some (e, code, newPassword)"
    and "user_findUnique_email s e = Some u"
    and "passwordReset_findFirst s (user_id u) code now = Some r"
  shows "reset_password env now abort s req =
     (if abort = None
      then (s\<lparr>users := map (\<lambda>x. if user_id x = user_id u
                                  then x\<lparr>user_passwordHash := hashPassword env newPassword\<rparr> else x) (users s),
              passwordResets := map (\<lambda>x. if pr_id x = pr_id r then x\<lparr>pr_isUsed := True\<rparr> else x)
                                  (passwordResets s)\<rparr>,
            (200, MessageBody ''Password reset successful''))
      else (s, (500, ErrorBody ''Failed to reset password'')))"
proof -
  obtain u0 where u0: "find (\<lambda>x. user_id x = user_id u) (users s) = Some u0"
    using find_member [OF find_in_set [OF assms(2) [unfolded user_findUnique_email_def]], of "\<lambda>x. user_id x = user_id u"]
    by auto
  obtain r0 where r0: "find (\<lambda>x. pr_id x = pr_id r) (passwordResets s) = Some r0"
    using find_member [OF find_in_set [OF assms(3) [unfolded passwordReset_findFirst_def]], of "\<lambda>x. pr_id x = pr_id r"]
    by auto
  show ?thesis
    using assms u0 r0
    by (simp add: reset_password_def transaction_pair user_update_passwordHash_def
          passwordReset_update_isUsed_def Let_def)
qed

text \<open>
  Claim C5. When the request is well formed, the email resolves to an identity and an
  unused, unexpired record of that identity carries the code, the handler hands both
  writes to one transaction. Whether the database commits or fails it, at whatever
  statement, the outcome is one of two: the identity's hash is the new password's hash
  and that record is marked used (response 200), or the store is exactly as before
  (response 500). No outcome has one write without the other.
\<close>

theorem reset_password_atomic:
  assumes "resetPasswordSchema env (req_body req) = Some (e, code, newPassword)"
    and "user_findUnique_email s e = Some u"
    and "passwordReset_findFirst s (user_id u) code now = Some r"
  shows "reset_password env now abort s req =
           (s\<lparr>users := map (\<lambda>x. if user_id x = user_id u
                                  then x\<lparr>user_passwordHash := hashPassword env newPassword\<rparr> else x) (users s),
              passwordResets := map (\<lambda>x. if pr_id x = pr_id r then x\<lparr>pr_isUsed := True\<rparr> else x)
                                  (passwordResets s)\<rparr>,
            (200, MessageBody ''Password reset successful''))
       \<or> reset_password env now abort s req = (s, (500, ErrorBody ''Failed to reset password''))"
  using reset_password_matched [OF assms, of abort] by (cases "abort = None") simp_all

text \<open>
  User 1 of the sample store consumes the code 123456: once with the transaction
  committing, once with the database failing it after the first statement.
\<close>

theorem reset_password_atomic_witness:
  "reset_password sample_env 1000 None sample_store
       (public_request (reset_body ''a@x.com'' ''123456'' ''secret9''))
     = (sample_store\<lparr>users := map (\<lambda>x. if user_id x = 1 then x\<lparr>user_passwordHash := ''h:secret9''\<rparr> else x)
                                 (users sample_store),
          passwordResets :=
            [\<lparr>pr_id = 1, pr_userId = 1, pr_otpCode = ''123456'', pr_otpExpiry = 5000, pr_isUsed = True\<rparr>]\<rparr>,
        (200, MessageBody ''Password reset successful''))
   \<and> reset_password sample_env 1000 (Some 1) sample_store
       (public_request (reset_body ''a@x.com'' ''123456'' ''secret9''))
     = (sample_store, (500, ErrorBody ''Failed to reset password''))"
proof -
  let ?req = "public_request (reset_body ''a@x.com'' ''123456'' ''secret9'')"
  let ?u = "\<lparr>user_id = 1, user_email = ''a@x.com'', user_passwordHash = ''h:secret1'', user_roleId = 1,
          user_roleName = ''job_seeker'', user_isActive = True\<rparr>"
  let ?r = "\<lparr>pr_id = 1, pr_userId = 1, pr_otpCode = ''123456'', pr_otpExpiry = 5000, pr_isUsed = False\<rparr>"
  have a: "resetPasswordSchema sample_env (req_body ?req) = Some (''a@x.com'', ''123456'', ''secret9'')"
    by (simp add: resetPasswordSchema_def sample_defs)
  have b: "user_findUnique_email sample_store ''a@x.com'' = Some ?u"
    by (simp add: store_defs sample_defs)
  have c: "passwordReset_findFirst sample_store (user_id ?u) ''123456'' 1000 = Some ?r"
    by (simp add: store_defs sample_defs)
  have ok: "reset_password sample_env 1000 None sample_store ?req
      \<noteq> (sample_store, (500, ErrorBody ''Failed to reset password''))"
    by (simp add: reset_password_def resetPasswordSchema_def transaction_def hashPassword_def
          store_defs sample_defs)
  have ko: "fst (snd (reset_password sample_env 1000 (Some 1) sample_store ?req)) \<noteq> 200"
    by (simp add: reset_password_def resetPasswordSchema_def transaction_def hashPassword_def
          store_defs sample_defs)
  have h: "hashPassword sample_env ''secret9'' = ''h:secret9''"
    by (simp add: hashPassword_def sample_defs)
  have p: "passwordResets sample_store = [?r]" by (simp add: sample_defs)
  show ?thesis
    using reset_password_atomic [OF a b c, of None] reset_password_atomic [OF a b c, of "Some 1"] ok ko h p
    by auto
qed

lemma find_map_email:
  "find (\<lambda>x. user_email x = e) (map (\<lambda>x. if user_id x = uid then x\<lparr>user_passwordHash := h\<rparr> else x) xs)
     = map_option (\<lambda>x. if user_id x = uid then x\<lparr>user_passwordHash := h\<rparr> else x)
         (find (\<lambda>x. user_email x = e) xs)"
  by (induction xs) auto

lemma no_match_after_use:
  assumes "find (\<lambda>x. pr_userId x = uid \<and> pr_otpCode x = code \<and> pr_isUsed x = False \<and> pr_otpExpiry x \<ge> now) rs = Some r"
    and "\<forall>x \<in> set rs. pr_userId x = uid \<and> pr_otpCode x = code \<and> \<not> pr_isUsed x \<longrightarrow> x = r"
  shows "find (\<lambda>x. pr_userId x = uid \<and> pr_otpCode x = code \<and> pr_isUsed x = False \<and> pr_otpExpiry x \<ge> now')
           (map (\<lambda>x. if pr_id x = pr_id r then x\<lparr>pr_isUsed := True\<rparr> else x) rs) = None"
  using assms(2) by (auto simp: find_None_iff)

text \<open>
  Claim C6, amended. For a well-formed request: when the email resolves to an identity
  and no record of that identity carries the code unused and unexpired (a wrong code, a
  used code, an expired code), the reset fails with 400 "Invalid or expired OTP" and the
  store is unchanged; when the email resolves to no identity, it fails with
  400 "Invalid request" instead, the store unchanged as well. After a successful reset, a
  second request with the same email and code, at any time and with any new password,
  fails with "Invalid or expired OTP" and changes nothing, provided the consumed record
  was the identity's only unused record with that code.
\<close>

theorem reset_password_rejections:
  assumes "resetPasswordSchema env (req_body req) = Some (e, code, newPassword)"
    and "resetPasswordSchema env (req_body req') = Some (e, code, newPassword')"
  shows "(user_findUnique_email s e = Some u
            \<and> (\<forall>x \<in> set (passwordResets s).
                  \<not> (pr_userId x = user_id u \<and> pr_otpCode x = code \<and> \<not> pr_isUsed x \<and> pr_otpExpiry x \<ge> now)) \<longrightarrow>
            reset_password env now abort s req = (s, (400, ErrorBody ''Invalid or expired OTP'')))
       \<and> (user_findUnique_email s e = None \<longrightarrow>
            reset_password env now abort s req = (s, (400, ErrorBody ''Invalid request'')))
       \<and> (user_findUnique_email s e = Some u
            \<and> passwordReset_findFirst s (user_id u) code now = Some r
            \<and> (\<forall>x \<in> set (passwordResets s).
                  pr_userId x = user_id u \<and> pr_otpCode x = code \<and> \<not> pr_isUsed x \<longrightarrow> x = r) \<longrightarrow>
            snd (reset_password env now None s req) = (200, MessageBody ''Password reset successful'')
            \<and> reset_password env now' abort (fst (reset_password env now None s req)) req'
                 = (fst (reset_password env now None s req), (400, ErrorBody ''Invalid or expired OTP'')))"
proof (intro conjI impI; (elim conjE)?)
  assume u: "user_findUnique_email s e = Some u"
    and none: "\<forall>x \<in> set (passwordResets s).
        \<not> (pr_userId x = user_id u \<and> pr_otpCode x = code \<and> \<not> pr_isUsed x \<and> pr_otpExpiry x \<ge> now)"
  have "passwordReset_findFirst s (user_id u) code now = None"
    using none by (auto simp: passwordReset_findFirst_def find_None_iff)
  then show "reset_password env now abort s req = (s, (400, ErrorBody ''Invalid or expired OTP''))"
    using assms(1) u by (simp add: reset_password_def)
next
  assume "user_findUnique_email s e = None"
  then show "reset_password env now abort s req = (s, (400, ErrorBody ''Invalid request''))"
    using assms(1) by (simp add: reset_password_def)
next
  assume u: "user_findUnique_email s e = Some u"
    and r: "passwordReset_findFirst s (user_id u) code now = Some r"
    and only: "\<forall>x \<in> set (passwordResets s).
        pr_userId x = user_id u \<and> pr_otpCode x = code \<and> \<not> pr_isUsed x \<longrightarrow> x = r"
  let ?s' = "s\<lparr>users := map (\<lambda>x. if user_id x = user_id u
                                  then x\<lparr>user_passwordHash := hashPassword env newPassword\<rparr> else x) (users s),
              passwordResets := map (\<lambda>x. if pr_id x = pr_id r then x\<lparr>pr_isUsed := True\<rparr> else x)
                                  (passwordResets s)\<rparr>"
  have first: "reset_password env now None s req = (?s', (200, MessageBody ''Password reset successful''))"
    using reset_password_matched [OF assms(1) u r, of None] by simp
  have u': "user_findUnique_email ?s' e = Some (u\<lparr>user_passwordHash := hashPassword env newPassword\<rparr>)"
    using u by (simp add: user_findUnique_email_def find_map_email)
  have gone: "passwordReset_findFirst ?s' (user_id u) code now' = None"
    using no_match_after_use [OF r [unfolded passwordReset_findFirst_def] only]
    by (simp add: passwordReset_findFirst_def)
  have second: "reset_password env now' abort ?s' req' = (?s', (400, ErrorBody ''Invalid or expired OTP''))"
    using assms(2) u' gone by (simp add: reset_password_def)
  show "snd (reset_password env now None s req) = (200, MessageBody ''Password reset successful'')"
    by (simp add: first)
  show "reset_password env now' abort (fst (reset_password env now None s req)) req'
          = (fst (reset_password env now None s req), (400, ErrorBody ''Invalid or expired OTP''))"
    using second by (simp add: first)
qed

text \<open>
  Claim C6, as stated, fails. An email without an identity matches no record, yet the
  error is "Invalid request", not "Invalid or expired OTP". And when two recovery requests
  drew the same code, the second consumption of that code succeeds on the second record.
\<close>

theorem reset_password_other_outcomes:
  "user_findUnique_email sample_store ''nobody@x.com'' = None
   \<and> map pr_otpCode (passwordResets sample_store) = [''123456'']
   \<and> reset_password sample_env 1000 None sample_store
        (public_request (reset_body ''nobody@x.com'' ''654321'' ''secret9''))
      = (sample_store, (400, ErrorBody ''Invalid request''))
   \<and> snd (reset_password sample_env 1000 None sample_store_same_code
        (public_request (reset_body ''a@x.com'' ''123456'' ''secret8'')))
      = (200, MessageBody ''Password reset successful'')
   \<and> snd (reset_password sample_env 1000 None
        (fst (reset_password sample_env 1000 None sample_store_same_code
               (public_request (reset_body ''a@x.com'' ''123456'' ''secret8''))))
        (public_request (reset_body ''a@x.com'' ''123456'' ''secret9'')))
      = (200, MessageBody ''Password reset successful'')"
  by (simp add: reset_password_def resetPasswordSchema_def transaction_def hashPassword_def
        store_defs sample_defs)

text \<open>
  User 1 of the sample store: a wrong code, the right code after its expiry, an unknown
  email, and the right code consumed twice.
\<close>

theorem reset_password_rejections_witness:
  "reset_password sample_env 1000 None sample_store
        (public_request (reset_body ''a@x.com'' ''654321'' ''secret9''))
      = (sample_store, (400, ErrorBody ''Invalid or expired OTP''))
   \<and> reset_password sample_env 9000 None sample_store
        (public_request (reset_body ''a@x.com'' ''123456'' ''secret9''))
      = (sample_store, (400, ErrorBody ''Invalid or expired OTP''))
   \<and> reset_password sample_env 1000 None sample_store
        (public_request (reset_body ''nobody@x.com'' ''123456'' ''secret9''))
      = (sample_store, (400, ErrorBody ''Invalid request''))
   \<and> snd (reset_password sample_env 1000 None sample_store
        (public_request (reset_body ''a@x.com'' ''123456'' ''secret8'')))
      = (200, MessageBody ''Password reset successful'')
   \<and> snd (reset_password sample_env 1001 None
        (fst (reset_password sample_env 1000 None sample_store
               (public_request (reset_body ''a@x.com'' ''123456'' ''secret8''))))
        (public_request (reset_body ''a@x.com'' ''123456'' ''secret9'')))
      = (400, ErrorBody ''Invalid or expired OTP'')"
proof -
  let ?u = "\<lparr>user_id = 1, user_email = ''a@x.com'', user_passwordHash = ''h:secret1'', user_roleId = 1,
          user_roleName = ''job_seeker'', user_isActive = True\<rparr>"
  let ?r = "\<lparr>pr_id = 1, pr_userId = 1, pr_otpCode = ''123456'', pr_otpExpiry = 5000, pr_isUsed = False\<rparr>"
  have sch: "\<And>e c p. length c = 6 \<Longrightarrow> length p \<ge> 6 \<Longrightarrow> CHR ''@'' \<in> set e \<Longrightarrow>
      resetPasswordSchema sample_env (req_body (public_request (reset_body e c p))) = Some (e, c, p)"
    by (simp add: resetPasswordSchema_def sample_defs)
  have s1: "\<And>p. length p \<ge> 6 \<Longrightarrow> resetPasswordSchema sample_env
       (req_body (public_request (reset_body ''a@x.com'' ''654321'' p))) = Some (''a@x.com'', ''654321'', p)"
    and s2: "\<And>p. length p \<ge> 6 \<Longrightarrow> resetPasswordSchema sample_env
       (req_body (public_request (reset_body ''a@x.com'' ''123456'' p))) = Some (''a@x.com'', ''123456'', p)"
    and s3: "\<And>p. length p \<ge> 6 \<Longrightarrow> resetPasswordSchema sample_env
       (req_body (public_request (reset_body ''nobody@x.com'' ''123456'' p))) = Some (''nobody@x.com'', ''123456'', p)"
    by (simp_all add: sch)
  have l: "length ''secret9'' \<ge> (6::nat)" "length ''secret8'' \<ge> (6::nat)" by simp_all
  have u: "user_findUnique_email sample_store ''a@x.com'' = Some ?u"
    "user_findUnique_email sample_store ''nobody@x.com'' = None"
    by (simp_all add: store_defs sample_defs)
  have wrong: "\<forall>x \<in> set (passwordResets sample_store).
       \<not> (pr_userId x = user_id ?u \<and> pr_otpCode x = ''654321'' \<and> \<not> pr_isUsed x \<and> pr_otpExpiry x \<ge> 1000)"
    by (simp add: sample_defs)
  have late: "\<forall>x \<in> set (passwordResets sample_store).
       \<not> (pr_userId x = user_id ?u \<and> pr_otpCode x = ''123456'' \<and> \<not> pr_isUsed x \<and> pr_otpExpiry x \<ge> 9000)"
    by (simp add: sample_defs)
  have r: "passwordReset_findFirst sample_store (user_id ?u) ''123456'' 1000 = Some ?r"
    by (simp add: store_defs sample_defs)
  have only: "\<forall>x \<in> set (passwordResets sample_store).
       pr_userId x = user_id ?u \<and> pr_otpCode x = ''123456'' \<and> \<not> pr_isUsed x \<longrightarrow> x = ?r"
    by (simp add: sample_defs)
  show ?thesis
    using reset_password_rejections [OF s1 [OF l(1)] s1 [OF l(1)],
            where s = sample_store and u = ?u and now = 1000 and abort = None and r = ?r and now' = 1000]
          reset_password_rejections [OF s2 [OF l(1)] s2 [OF l(1)],
            where s = sample_store and u = ?u and now = 9000 and abort = None and r = ?r and now' = 1000]
          reset_password_rejections [OF s3 [OF l(1)] s3 [OF l(1)],
            where s = sample_store and u = ?u and now = 1000 and abort = None and r = ?r and now' = 1000]
          reset_password_rejections [OF s2 [OF l(2)] s2 [OF l(1)],
            where s = sample_store and u = ?u and now = 1000 and abort = None and r = ?r and now' = 1001]
          u wrong late r only
    by simp
qed

subsection \<open>Job posting status\<close>

text \<open>
  Claim C2, amended. The handler checks the requested status against the three names and
  never reads the posting's current status: for the owning shop, every request for
  \<open>open\<close>, \<open>closed\<close> or \<open>completed\<close> succeeds and writes that status to the posting, from any
  current status; any other status string is rejected with 400 "Invalid status" and the
  store is left as it is.
\<close>

theorem updateJobStatus_any_transition:
  assumes "authenticate env now req = Inr u"
    and "roleId u = SHOP_OWNER"
    and "shop_findUnique_userId s (userId u) = Some sh"
    and "params_id req = Some i"
    and "shopJobPost_findFirst s i (shop_id sh) = Some job"
    and "req_body req ''status'' = JString st"
  shows "(st \<in> {''open'', ''closed'', ''completed''} \<longrightarrow>
            fst (patch_jobs_status env now s req) =
              s\<lparr>shopJobPosts := map (\<lambda>j. if job_id j = i then j\<lparr>job_status := st\<rparr> else j) (shopJobPosts s)\<rparr>
            \<and> fst (snd (patch_jobs_status env now s req)) = 200)
       \<and> (st \<notin> {''open'', ''closed'', ''completed''} \<longrightarrow>
            patch_jobs_status env now s req = (s, (400, ErrorBody ''Invalid status'')))"
proof -
  have run: "patch_jobs_status env now s req = updateJobStatus u s req"
    using assms(1,2) by (simp add: patch_jobs_status_def protected_authorized)
  obtain j0 where j0: "find (\<lambda>j. job_id j = i) (shopJobPosts s) = Some j0"
    using find_weaken [OF assms(5) [unfolded shopJobPost_findFirst_def]] by blast
  show ?thesis
    using assms(3-6) j0 by (simp add: run updateJobStatus_def shopJobPost_update_status_def)
qed

text \<open>
  Claim C2, as stated, fails: the owner of the closed posting 2 sets it to \<open>open\<close> and the
  request succeeds.
\<close>

theorem updateJobStatus_reopens_closed:
  "shopJobPost_findUnique sample_store 2 = Some \<lparr>job_id = 2, job_shopId = 1, job_status = ''closed''\<rparr>
   \<and> patch_jobs_status sample_env 1000 sample_store
        (sample_request ''owner'' 2 (no_body(''status'' := JString ''open'')))
     = (sample_store\<lparr>shopJobPosts :=
          [\<lparr>job_id = 1, job_shopId = 1, job_status = ''open''\<rparr>,
           \<lparr>job_id = 2, job_shopId = 1, job_status = ''open''\<rparr>,
           \<lparr>job_id = 3, job_shopId = 2, job_status = ''open''\<rparr>]\<rparr>,
        (200, JobBody ''Job status updated'' \<lparr>job_id = 2, job_shopId = 1, job_status = ''open''\<rparr>))"
  by (simp add: patch_jobs_status_def updateJobStatus_def auth_defs store_defs sample_defs)

text \<open>
  The owner of shop 1 reopens the closed posting 2; the status \<open>reopened\<close> is rejected.
\<close>

theorem updateJobStatus_any_transition_witness:
  "fst (patch_jobs_status sample_env 1000 sample_store
        (sample_request ''owner'' 2 (no_body(''status'' := JString ''open''))))
     = sample_store\<lparr>shopJobPosts :=
          map (\<lambda>j. if job_id j = 2 then j\<lparr>job_status := ''open''\<rparr> else j) (shopJobPosts sample_store)\<rparr>
   \<and> fst (snd (patch_jobs_status sample_env 1000 sample_store
        (sample_request ''owner'' 2 (no_body(''status'' := JString ''open''))))) = 200
   \<and> patch_jobs_status sample_env 1000 sample_store
        (sample_request ''owner'' 2 (no_body(''status'' := JString ''reopened'')))
     = (sample_store, (400, ErrorBody ''Invalid status''))"
proof -
  let ?u = "\<lparr>userId = 2, email = ''o@x.com'', roleId = 2\<rparr>"
  have a: "\<And>b. authenticate sample_env 1000 (sample_request ''owner'' 2 b) = Inr ?u"
    by (simp add: auth_defs sample_defs)
  have r: "roleId ?u = SHOP_OWNER" by (simp add: SHOP_OWNER_def)
  have sh: "shop_findUnique_userId sample_store (userId ?u) = Some \<lparr>shop_id = 1, shop_userId = 2\<rparr>"
    by (simp add: store_defs sample_defs)
  have p: "\<And>b. params_id (sample_request ''owner'' 2 b) = Some 2"
    by (simp add: sample_defs)
  have j: "shopJobPost_findFirst sample_store 2 (shop_id \<lparr>shop_id = 1, shop_userId = 2\<rparr>)
             = Some \<lparr>job_id = 2, job_shopId = 1, job_status = ''closed''\<rparr>"
    by (simp add: store_defs sample_defs)
  have b: "\<And>st. req_body (sample_request ''owner'' 2 (no_body(''status'' := JString st))) ''status'' = JString st"
    by (simp add: sample_defs)
  show ?thesis
    using updateJobStatus_any_transition [OF a r sh p j b, of "''open''"]
          updateJobStatus_any_transition [OF a r sh p j b, of "''reopened''"]
    by simp
qed

subsection \<open>Application status\<close>

text \<open>
  Claim C3, amended. The owner's status update validates the requested status against the
  four names \<open>pending\<close>, \<open>accepted\<close>, \<open>rejected\<close>, \<open>withdrawn\<close> and never reads the
  application's current status: for the shop owning the application's posting, each of
  the four is written to the application, from any current status; any other status
  string is a validation error and the store is left as it is.
\<close>

theorem updateApplicationStatus_any_status:
  assumes "authenticate env now req = Inr u"
    and "roleId u = SHOP_OWNER"
    and "shop_findUnique_userId s (userId u) = Some sh"
    and "params_id req = Some i"
    and "application_findUnique s i = Some a"
    and "shopJobPost_findUnique s (app_postId a) = Some post"
    and "job_shopId post = shop_id sh"
    and "req_body req ''status'' = JString st"
  shows "(st \<in> {''pending'', ''accepted'', ''rejected'', ''withdrawn''} \<longrightarrow>
            patch_applications_status env now s req =
              (s\<lparr>applications := map (\<lambda>x. if app_id x = i then x\<lparr>app_status := st\<rparr> else x) (applications s)\<rparr>,
               (200, ApplicationBody ''Application status updated'' (a\<lparr>app_status := st\<rparr>))))
       \<and> (st \<notin> {''pending'', ''accepted'', ''rejected'', ''withdrawn''} \<longrightarrow>
            patch_applications_status env now s req = (s, (400, ValidationErrorBody)))"
proof -
  have run: "patch_applications_status env now s req = updateApplicationStatus u s req"
    using assms(1,2) by (simp add: patch_applications_status_def protected_authorized)
  have upd: "application_update_status i st s =
     Some (s\<lparr>applications := map (\<lambda>x. if app_id x = i then x\<lparr>app_status := st\<rparr> else x) (applications s)\<rparr>,
           a\<lparr>app_status := st\<rparr>)"
    using assms(5) by (simp add: application_update_status_def application_findUnique_def)
  show ?thesis
    using assms(3-8) upd by (simp add: run updateApplicationStatus_def updateStatusSchema_def)
qed

text \<open>
  Claim C3, as stated, fails: the owner of the posting moves the accepted application 1
  to \<open>withdrawn\<close>.
\<close>

theorem updateApplicationStatus_accepted_to_withdrawn:
  "application_findUnique sample_store 1
     = Some \<lparr>app_id = 1, app_seekerId = 1, app_postId = 2, app_status = ''accepted''\<rparr>
   \<and> patch_applications_status sample_env 1000 sample_store
        (sample_request ''owner'' 1 (no_body(''status'' := JString ''withdrawn'')))
     = (sample_store\<lparr>applications :=
          [\<lparr>app_id = 1, app_seekerId = 1, app_postId = 2, app_status = ''withdrawn''\<rparr>,
           \<lparr>app_id = 2, app_seekerId = 1, app_postId = 3, app_status = ''pending''\<rparr>]\<rparr>,
        (200, ApplicationBody ''Application status updated''
                \<lparr>app_id = 1, app_seekerId = 1, app_postId = 2, app_status = ''withdrawn''\<rparr>))"
  by (simp add: patch_applications_status_def updateApplicationStatus_def updateStatusSchema_def
        auth_defs store_defs sample_defs)

text \<open>
  The owner of shop 1 sets the accepted application 1 back to \<open>pending\<close>; the status
  \<open>hired\<close> is rejected by the schema.
\<close>

theorem updateApplicationStatus_any_status_witness:
  "patch_applications_status sample_env 1000 sample_store
        (sample_request ''owner'' 1 (no_body(''status'' := JString ''pending'')))
     = (sample_store\<lparr>applications :=
          map (\<lambda>x. if app_id x = 1 then x\<lparr>app_status := ''pending''\<rparr> else x) (applications sample_store)\<rparr>,
        (200, ApplicationBody ''Application status updated''
                \<lparr>app_id = 1, app_seekerId = 1, app_postId = 2, app_status = ''pending''\<rparr>))
   \<and> patch_applications_status sample_env 1000 sample_store
        (sample_request ''owner'' 1 (no_body(''status'' := JString ''hired'')))
     = (sample_store, (400, ValidationErrorBody))"
proof -
  let ?u = "\<lparr>userId = 2, email = ''o@x.com'', roleId = 2\<rparr>"
  let ?a = "\<lparr>app_id = 1, app_seekerId = 1, app_postId = 2, app_status = ''accepted''\<rparr>"
  have a: "\<And>b. authenticate sample_env 1000 (sample_request ''owner'' 1 b) = Inr ?u"
    by (simp add: auth_defs sample_defs)
  have r: "roleId ?u = SHOP_OWNER" by (simp add: SHOP_OWNER_def)
  have sh: "shop_findUnique_userId sample_store (userId ?u) = Some \<lparr>shop_id = 1, shop_userId = 2\<rparr>"
    by (simp add: store_defs sample_defs)
  have p: "\<And>b. params_id (sample_request ''owner'' 1 b) = Some 1"
    by (simp add: sample_defs)
  have ap: "application_findUnique sample_store 1 = Some ?a"
    by (simp add: store_defs sample_defs)
  have j: "shopJobPost_findUnique sample_store (app_postId ?a)
             = Some \<lparr>job_id = 2, job_shopId = 1, job_status = ''closed''\<rparr>"
    by (simp add: store_defs sample_defs)
  have o: "job_shopId \<lparr>job_id = 2, job_shopId = 1, job_status = ''closed''\<rparr>
             = shop_id \<lparr>shop_id = 1, shop_userId = 2\<rparr>"
    by simp
  have b: "\<And>st. req_body (sample_request ''owner'' 1 (no_body(''status'' := JString st))) ''status'' = JString st"
    by (simp add: sample_defs)
  show ?thesis
    using updateApplicationStatus_any_status [OF a r sh p ap j o b, of "''pending''"]
          updateApplicationStatus_any_status [OF a r sh p ap j o b, of "''hired''"]
    by simp
qed

lemma deleteApplication_removes:
  assumes "authenticate env now req = Inr u"
    and "roleId u = JOB_SEEKER"
    and "jobSeekerProfile_findUnique_userId s (userId u) = Some profile"
    and "params_id req = Some i"
    and "application_findFirst s i (jsp_id profile) = Some a"
  shows "delete_applications env now s req =
           (s\<lparr>applications := filter (\<lambda>x. app_id x \<noteq> i) (applications s)\<rparr>,
            (200, MessageBody ''Application withdrawn successfully''))"
proof -
  have run: "delete_applications env now s req = deleteApplication u s req"
    using assms(1,2) by (simp add: delete_applications_def protected_authorized)
  obtain a0 where "find (\<lambda>x. app_id x = i) (applications s) = Some a0"
    using find_weaken [OF assms(5) [unfolded application_findFirst_def]] by blast
  then show ?thesis
    using assms(3-5) by (simp add: run deleteApplication_def application_delete_def)
qed

subsection \<open>Resources of another shop\<close>

text \<open>
  Claim C4, amended. For an authenticated shop owner with a shop and a well-formed
  status, the posting route answers 404 "Job not found or unauthorized" both for an id
  that no posting has and for a posting of another shop; the application route answers
  404 "Application not found" for an id that no application has, and
  403 "Unauthorized to update this application" for an application whose posting belongs
  to another shop. The store is unchanged in all four cases.
\<close>

theorem foreign_resource_responses:
  assumes "authenticate env now req = Inr u"
    and "roleId u = SHOP_OWNER"
    and "shop_findUnique_userId s (userId u) = Some sh"
    and "params_id req = Some i"
    and "distinct (map job_id (shopJobPosts s))"
    and "req_body req ''status'' = JString st"
  shows "(st \<in> {''open'', ''closed'', ''completed''} \<and> shopJobPost_findUnique s i = None \<longrightarrow>
            patch_jobs_status env now s req = (s, (404, ErrorBody ''Job not found or unauthorized'')))
       \<and> (st \<in> {''open'', ''closed'', ''completed''} \<and> shopJobPost_findUnique s i = Some job
            \<and> job_shopId job \<noteq> shop_id sh \<longrightarrow>
            patch_jobs_status env now s req = (s, (404, ErrorBody ''Job not found or unauthorized'')))
       \<and> (st \<in> {''pending'', ''accepted'', ''rejected'', ''withdrawn''} \<and> application_findUnique s i = None \<longrightarrow>
            patch_applications_status env now s req = (s, (404, ErrorBody ''Application not found'')))
       \<and> (st \<in> {''pending'', ''accepted'', ''rejected'', ''withdrawn''} \<and> application_findUnique s i = Some a
            \<and> shopJobPost_findUnique s (app_postId a) = Some post \<and> job_shopId post \<noteq> shop_id sh \<longrightarrow>
            patch_applications_status env now s req
              = (s, (403, ErrorBody ''Unauthorized to update this application'')))"
proof -
  have runJ: "patch_jobs_status env now s req = updateJobStatus u s req"
    using assms(1,2) by (simp add: patch_jobs_status_def protected_authorized)
  have runA: "patch_applications_status env now s req = updateApplicationStatus u s req"
    using assms(1,2) by (simp add: patch_applications_status_def protected_authorized)
  have absent: "shopJobPost_findUnique s i = None \<Longrightarrow> shopJobPost_findFirst s i (shop_id sh) = None"
    unfolding shopJobPost_findUnique_def shopJobPost_findFirst_def by (rule find_absent)
  have foreign: "shopJobPost_findUnique s i = Some job \<Longrightarrow> job_shopId job \<noteq> shop_id sh \<Longrightarrow>
      shopJobPost_findFirst s i (shop_id sh) = None"
    unfolding shopJobPost_findUnique_def shopJobPost_findFirst_def
    using assms(5) by (rule find_other_owner)
  have j1: "st \<in> {''open'', ''closed'', ''completed''} \<Longrightarrow> shopJobPost_findFirst s i (shop_id sh) = None \<Longrightarrow>
      updateJobStatus u s req = (s, (404, ErrorBody ''Job not found or unauthorized''))"
    using assms(3,4,6) by (simp add: updateJobStatus_def)
  have a1: "st \<in> {''pending'', ''accepted'', ''rejected'', ''withdrawn''} \<Longrightarrow> application_findUnique s i = None \<Longrightarrow>
      updateApplicationStatus u s req = (s, (404, ErrorBody ''Application not found''))"
    using assms(3,4,6) by (simp add: updateApplicationStatus_def updateStatusSchema_def)
  have a2: "st \<in> {''pending'', ''accepted'', ''rejected'', ''withdrawn''} \<Longrightarrow> application_findUnique s i = Some a \<Longrightarrow>
      shopJobPost_findUnique s (app_postId a) = Some post \<Longrightarrow> job_shopId post \<noteq> shop_id sh \<Longrightarrow>
      updateApplicationStatus u s req = (s, (403, ErrorBody ''Unauthorized to update this application''))"
    using assms(3,4,6) by (simp add: updateApplicationStatus_def updateStatusSchema_def)
  show ?thesis
    unfolding runJ runA
    by (intro conjI impI; elim conjE) (rule j1 a1 a2; (assumption | rule absent foreign)+)+
qed

text \<open>
  Claim C4, as stated, fails on the application route: the owner of shop 2 gets 403 for
  the existing application 1 of shop 1's posting, and 404 for the id 7 that no
  application has.
\<close>

theorem application_of_other_shop_distinguished:
  "patch_applications_status sample_env 1000 sample_store
        (sample_request ''other-owner'' 1 (no_body(''status'' := JString ''rejected'')))
     = (sample_store, (403, ErrorBody ''Unauthorized to update this application''))
   \<and> patch_applications_status sample_env 1000 sample_store
        (sample_request ''other-owner'' 7 (no_body(''status'' := JString ''rejected'')))
     = (sample_store, (404, ErrorBody ''Application not found''))"
  by (simp add: patch_applications_status_def updateApplicationStatus_def updateStatusSchema_def
        auth_defs store_defs sample_defs)

text \<open>
  The owner of shop 2 on the sample store: posting 7 and application 7 do not exist,
  posting 1 and application 1 belong to shop 1.
\<close>

theorem foreign_resource_responses_witness:
  "patch_jobs_status sample_env 1000 sample_store
        (sample_request ''other-owner'' 7 (no_body(''status'' := JString ''closed'')))
     = (sample_store, (404, ErrorBody ''Job not found or unauthorized''))
   \<and> patch_jobs_status sample_env 1000 sample_store
        (sample_request ''other-owner'' 1 (no_body(''status'' := JString ''closed'')))
     = (sample_store, (404, ErrorBody ''Job not found or unauthorized''))
   \<and> patch_applications_status sample_env 1000 sample_store
        (sample_request ''other-owner'' 7 (no_body(''status'' := JString ''rejected'')))
     = (sample_store, (404, ErrorBody ''Application not found''))
   \<and> patch_applications_status sample_env 1000 sample_store
        (sample_request ''other-owner'' 1 (no_body(''status'' := JString ''rejected'')))
     = (sample_store, (403, ErrorBody ''Unauthorized to update this application''))"
proof -
  let ?u = "\<lparr>userId = 3, email = ''p@x.com'', roleId = 2\<rparr>"
  let ?sh = "\<lparr>shop_id = 2, shop_userId = 3\<rparr>"
  let ?a = "\<lparr>app_id = 1, app_seekerId = 1, app_postId = 2, app_status = ''accepted''\<rparr>"
  let ?j1 = "\<lparr>job_id = 1, job_shopId = 1, job_status = ''open''\<rparr>"
  let ?j2 = "\<lparr>job_id = 2, job_shopId = 1, job_status = ''closed''\<rparr>"
  have a: "\<And>i b. authenticate sample_env 1000 (sample_request ''other-owner'' i b) = Inr ?u"
    by (simp add: auth_defs sample_defs)
  have r: "roleId ?u = SHOP_OWNER" by (simp add: SHOP_OWNER_def)
  have sh: "shop_findUnique_userId sample_store (userId ?u) = Some ?sh"
    by (simp add: store_defs sample_defs)
  have p: "\<And>i b. params_id (sample_request ''other-owner'' i b) = Some i"
    by (simp add: sample_defs)
  have d: "distinct (map job_id (shopJobPosts sample_store))"
    by (simp add: sample_defs)
  have b: "\<And>i st. req_body (sample_request ''other-owner'' i (no_body(''status'' := JString st))) ''status'' = JString st"
    by (simp add: sample_defs)
  have f7: "shopJobPost_findUnique sample_store 7 = None" "application_findUnique sample_store 7 = None"
    by (simp_all add: store_defs sample_defs)
  have f1: "shopJobPost_findUnique sample_store 1 = Some ?j1" "application_findUnique sample_store 1 = Some ?a"
    "shopJobPost_findUnique sample_store (app_postId ?a) = Some ?j2"
    "job_shopId ?j1 \<noteq> shop_id ?sh" "job_shopId ?j2 \<noteq> shop_id ?sh"
    by (simp_all add: store_defs sample_defs)
  show ?thesis
    using foreign_resource_responses [OF a r sh p d b, of "''closed''" 7 ?j1 ?a ?j2]
          foreign_resource_responses [OF a r sh p d b, of "''closed''" 1 ?j1 ?a ?j2]
          foreign_resource_responses [OF a r sh p d b, of "''rejected''" 7 ?j1 ?a ?j2]
          foreign_resource_responses [OF a r sh p d b, of "''rejected''" 1 ?j1 ?a ?j2]
          f7 f1
    by simp
qed

subsection \<open>Creating an application\<close>

text \<open>
  Claim C7. For an authenticated job seeker and a well-formed body, POST /api/applications
  checks, in this order, that the caller has a seeker profile (else 404, the profile is
  required), that the posting exists (else 404 "Job not found"), that its status is
  \<open>open\<close> (else 400, the job is closed), and that the seeker has no application for the
  posting yet (else 400, a duplicate). The first failing check decides the response, and
  every response other than 201 leaves the store, so the applications, unchanged; when
  all four pass, exactly the new pending application is appended.
\<close>

theorem createApplication_first_failure_wins:
  assumes "authenticate env now req = Inr u"
    and "roleId u = JOB_SEEKER"
    and "createApplicationSchema (req_body req) = Some pid"
  shows "(jobSeekerProfile_findUnique_userId s (userId u) = None \<longrightarrow>
            post_applications env now s req =
              (s, (404, ErrorBody ''Job seeker profile not found. Please complete your profile first.'')))
       \<and> (jobSeekerProfile_findUnique_userId s (userId u) = Some profile
            \<and> shopJobPost_findUnique s pid = None \<longrightarrow>
            post_applications env now s req = (s, (404, ErrorBody ''Job not found'')))
       \<and> (jobSeekerProfile_findUnique_userId s (userId u) = Some profile
            \<and> shopJobPost_findUnique s pid = Some job \<and> job_status job \<noteq> ''open'' \<longrightarrow>
            post_applications env now s req =
              (s, (400, ErrorBody ''Job is no longer accepting applications'')))
       \<and> (jobSeekerProfile_findUnique_userId s (userId u) = Some profile
            \<and> shopJobPost_findUnique s pid = Some job \<and> job_status job = ''open''
            \<and> application_findUnique_seekerId_postId s (jsp_id profile) pid = Some existing \<longrightarrow>
            post_applications env now s req =
              (s, (400, ErrorBody ''You have already applied to this job'')))
       \<and> (jobSeekerProfile_findUnique_userId s (userId u) = Some profile
            \<and> shopJobPost_findUnique s pid = Some job \<and> job_status job = ''open''
            \<and> application_findUnique_seekerId_postId s (jsp_id profile) pid = None \<longrightarrow>
            post_applications env now s req =
              (s\<lparr>applications := applications s @ [application_new s (jsp_id profile) pid]\<rparr>,
               (201, ApplicationBody ''Application submitted successfully''
                       (application_new s (jsp_id profile) pid))))
       \<and> (fst (snd (post_applications env now s req)) \<noteq> 201 \<longrightarrow>
            fst (post_applications env now s req) = s)"
proof -
  have run: "post_applications env now s req = createApplication u s req"
    using assms(1,2) by (simp add: post_applications_def protected_authorized)
  show ?thesis
    unfolding run using assms(3)
    by (simp add: createApplication_def application_create_def split: option.splits)
qed

text \<open>
  One request per branch on the sample store: a seeker without a profile, a posting that
  does not exist, the closed posting 2 (to which the seeker has applied before: the
  closed status is reported, not the duplicate), the open posting 3 already applied to,
  and the open posting 1.
\<close>

theorem createApplication_first_failure_wins_witness:
  "post_applications sample_env 1000 sample_store
        (sample_request ''newcomer'' 0 (no_body(''postId'' := JNumber 7)))
     = (sample_store, (404, ErrorBody ''Job seeker profile not found. Please complete your profile first.''))
   \<and> post_applications sample_env 1000 sample_store
        (sample_request ''seeker'' 0 (no_body(''postId'' := JNumber 7)))
     = (sample_store, (404, ErrorBody ''Job not found''))
   \<and> post_applications sample_env 1000 sample_store
        (sample_request ''seeker'' 0 (no_body(''postId'' := JNumber 2)))
     = (sample_store, (400, ErrorBody ''Job is no longer accepting applications''))
   \<and> post_applications sample_env 1000 sample_store
        (sample_request ''seeker'' 0 (no_body(''postId'' := JNumber 3)))
     = (sample_store, (400, ErrorBody ''You have already applied to this job''))
   \<and> post_applications sample_env 1000 sample_store
        (sample_request ''seeker'' 0 (no_body(''postId'' := JNumber 1)))
     = (sample_store\<lparr>applications := applications sample_store @
            [\<lparr>app_id = 3, app_seekerId = 1, app_postId = 1, app_status = ''pending''\<rparr>]\<rparr>,
        (201, ApplicationBody ''Application submitted successfully''
                \<lparr>app_id = 3, app_seekerId = 1, app_postId = 1, app_status = ''pending''\<rparr>))"
proof -
  let ?n = "\<lparr>userId = 5, email = ''n@x.com'', roleId = 1\<rparr>"
  let ?u = "\<lparr>userId = 1, email = ''a@x.com'', roleId = 1\<rparr>"
  let ?p = "\<lparr>jsp_id = 1, jsp_userId = 1\<rparr>"
  let ?j1 = "\<lparr>job_id = 1, job_shopId = 1, job_status = ''open''\<rparr>"
  let ?j2 = "\<lparr>job_id = 2, job_shopId = 1, job_status = ''closed''\<rparr>"
  let ?j3 = "\<lparr>job_id = 3, job_shopId = 2, job_status = ''open''\<rparr>"
  let ?a2 = "\<lparr>app_id = 2, app_seekerId = 1, app_postId = 3, app_status = ''pending''\<rparr>"
  have an: "\<And>b. authenticate sample_env 1000 (sample_request ''newcomer'' 0 b) = Inr ?n"
    by (simp add: auth_defs sample_defs)
  have au: "\<And>b. authenticate sample_env 1000 (sample_request ''seeker'' 0 b) = Inr ?u"
    by (simp add: auth_defs sample_defs)
  have r: "roleId ?n = JOB_SEEKER" "roleId ?u = JOB_SEEKER" by (simp_all add: JOB_SEEKER_def)
  have b: "\<And>t k. createApplicationSchema (req_body (sample_request t 0 (no_body(''postId'' := JNumber (of_int k))))) = Some k"
    by (simp add: createApplicationSchema_def sample_defs)
  have pr: "jobSeekerProfile_findUnique_userId sample_store (userId ?n) = None"
    "jobSeekerProfile_findUnique_userId sample_store (userId ?u) = Some ?p"
    by (simp_all add: store_defs sample_defs)
  have jobs: "shopJobPost_findUnique sample_store 7 = None"
    "shopJobPost_findUnique sample_store 2 = Some ?j2"
    "shopJobPost_findUnique sample_store 3 = Some ?j3"
    "shopJobPost_findUnique sample_store 1 = Some ?j1"
    by (simp_all add: store_defs sample_defs)
  have apps: "application_findUnique_seekerId_postId sample_store (jsp_id ?p) 3 = Some ?a2"
    "application_findUnique_seekerId_postId sample_store (jsp_id ?p) 1 = None"
    by (simp_all add: store_defs sample_defs)
  have new: "application_new sample_store (jsp_id ?p) 1
      = \<lparr>app_id = 3, app_seekerId = 1, app_postId = 1, app_status = ''pending''\<rparr>"
    by (simp add: store_defs sample_defs)
  show ?thesis
    using createApplication_first_failure_wins [OF an r(1) b [of _ 7], of sample_store ?p ?j1 ?a2]
          createApplication_first_failure_wins [OF au r(2) b [of _ 7], of sample_store ?p ?j1 ?a2]
          createApplication_first_failure_wins [OF au r(2) b [of _ 2], of sample_store ?p ?j2 ?a2]
          createApplication_first_failure_wins [OF au r(2) b [of _ 3], of sample_store ?p ?j3 ?a2]
          createApplication_first_failure_wins [OF au r(2) b [of _ 1], of sample_store ?p ?j1 ?a2]
          pr jobs apps new
    by simp
qed

end
